theory Spec2Isabelle
  imports Complex_Main "HOL-Library.Log_Nat"
begin

section \<open>Fixed-point amounts\<close>

text \<open>
  Every amount in the adapters and in the verification harness is a \<^verbatim>\<open>FixedPointNumber\<close>
  (imported as \<^verbatim>\<open>FN\<close> from the package \<^verbatim>\<open>@acala-network/sdk-core\<close>): an arbitrary-precision
  decimal \<^verbatim>\<open>inner\<close>, counted in smallest units, together with the number of decimals
  \<^verbatim>\<open>precision\<close>. The value it stands for is \<^verbatim>\<open>inner / 10 ^ precision\<close>. The class belongs
  to an external package and not to the repository; the definitions of this section
  follow its documented behaviour: \<^verbatim>\<open>plus\<close>, \<^verbatim>\<open>minus\<close> and \<^verbatim>\<open>times\<close> (also called \<^verbatim>\<open>add\<close>,
  \<^verbatim>\<open>sub\<close> and \<^verbatim>\<open>mul\<close>) are exact, the right operand is first brought to the precision of
  the left one, \<^verbatim>\<open>div\<close> rounds the inner quotient down to a whole number of smallest
  units, and \<^verbatim>\<open>toNumber\<close> gives the value as a JavaScript number.
\<close>

record FN =
  inner :: rat
  precision :: nat

text \<open>\<^verbatim>\<open>BigNumber.shiftedBy(n)\<close>: multiplication by \<^verbatim>\<open>10 ^ n\<close>, for negative \<^verbatim>\<open>n\<close> too.\<close>

definition shiftedBy :: "rat \<Rightarrow> int \<Rightarrow> rat" where
  "shiftedBy x n = (if 0 \<le> n then x * 10 ^ nat n else x / 10 ^ nat (- n))"

text \<open>\<^verbatim>\<open>new FN(origin, precision = 18)\<close>: the value \<^verbatim>\<open>origin\<close> itself.\<close>

definition FN_new :: "rat \<Rightarrow> nat \<Rightarrow> FN" where
  "FN_new origin p = \<lparr>inner = shiftedBy origin (int p), precision = p\<rparr>"

text \<open>\<^verbatim>\<open>FN.fromInner(origin, precision = 18)\<close>: \<^verbatim>\<open>origin\<close> smallest units.\<close>

definition fromInner :: "rat \<Rightarrow> nat \<Rightarrow> FN" where
  "fromInner origin p = \<lparr>inner = origin, precision = p\<rparr>"

definition FN_ZERO :: FN where
  "FN_ZERO = FN_new 0 18"

definition setPrecision :: "FN \<Rightarrow> nat \<Rightarrow> FN" where
  "setPrecision x p = \<lparr>inner = shiftedBy (inner x) (int p - int (precision x)), precision = p\<rparr>"

definition FN_plus :: "FN \<Rightarrow> FN \<Rightarrow> FN" where
  "FN_plus x right =
     (let temp = setPrecision right (precision x)
      in \<lparr>inner = inner x + inner temp, precision = precision x\<rparr>)"

definition FN_minus :: "FN \<Rightarrow> FN \<Rightarrow> FN" where
  "FN_minus x right =
     (let temp = setPrecision right (precision x)
      in \<lparr>inner = inner x - inner temp, precision = precision x\<rparr>)"

definition FN_times :: "FN \<Rightarrow> FN \<Rightarrow> FN" where
  "FN_times x right =
     (let temp = setPrecision right (precision x)
      in \<lparr>inner = shiftedBy (inner x * inner temp) (- int (precision x)),
          precision = precision x\<rparr>)"

definition isZero :: "FN \<Rightarrow> bool" where
  "isZero x = (inner x = 0)"

text \<open>
  \<^verbatim>\<open>toChainData()\<close>: the inner value as a whole number of smallest units, rounded down.
\<close>

definition toChainData :: "FN \<Rightarrow> int" where
  "toChainData x = \<lfloor>inner x\<rfloor>"

text \<open>The number an amount stands for; it is used to state properties only.\<close>

definition FN_value :: "FN \<Rightarrow> rat" where
  "FN_value x = inner x / 10 ^ precision x"

text \<open>
  A division by zero raises nothing in \<^verbatim>\<open>BigNumber\<close>: the quotient is an infinity or
  \<^verbatim>\<open>NaN\<close>, and so is the JavaScript number that \<^verbatim>\<open>toNumber\<close> makes of it. Comparisons
  with \<^verbatim>\<open>NaN\<close> are false. A zero divisor counts as a positive zero: a positive amount
  divided by zero is the positive infinity.
\<close>

datatype quotient = Finite FN | QInfinity | QNegInfinity | QNaN

datatype number = Number rat | Infinity | NegInfinity | NaN

definition FN_div :: "FN \<Rightarrow> FN \<Rightarrow> quotient" where
  "FN_div x right =
     (let temp = setPrecision right (precision x)
      in if inner temp = 0
         then (if 0 < inner x then QInfinity else if inner x < 0 then QNegInfinity else QNaN)
         else Finite \<lparr>inner = of_int \<lfloor>shiftedBy (inner x) (int (precision x)) / inner temp\<rfloor>,
                      precision = precision x\<rparr>)"

text \<open>
  The JavaScript number of a decimal: the IEEE 754 double nearest to it, a tie going to
  the neighbour with an even significand. A double has a significand of 53 bits, so
  the doubles around a positive \<open>x\<close> with \<open>2 ^ e \<le> x < 2 ^ (e + 1)\<close> are the multiples of
  \<open>2 ^ (e - 52)\<close>; below \<open>2 ^ - 1022\<close> they are the multiples of \<open>2 ^ - 1074\<close>, and a
  result of \<open>2 ^ 1024\<close> or more is an infinity.
\<close>

definition roundHalfEven :: "rat \<Rightarrow> int" where
  "roundHalfEven r =
     (let f = \<lfloor>r\<rfloor>; d = r - of_int f
      in if d < 1 / 2 then f else if 1 / 2 < d then f + 1 else if even f then f else f + 1)"

text \<open>The binary exponent \<open>e\<close> of a positive number.\<close>

definition ilog2 :: "rat \<Rightarrow> int" where
  "ilog2 x =
     (let (a, b) = quotient_of x;
          k = int (floorlog 2 (nat a)) - int (floorlog 2 (nat b))
      in if 2 powi k \<le> x then k else k - 1)"

definition double_of_pos :: "rat \<Rightarrow> number" where
  "double_of_pos x =
     (let e = max (ilog2 x) (- 1022);
          ulp = 2 powi (e - 52);
          y = of_int (roundHalfEven (x / ulp)) * ulp
      in if 2 ^ 1024 \<le> y then Infinity else Number y)"

definition nearestDouble :: "rat \<Rightarrow> number" where
  "nearestDouble x =
     (if x = 0 then Number 0
      else if 0 < x then double_of_pos x
      else (case double_of_pos (- x) of Number y \<Rightarrow> Number (- y) | _ \<Rightarrow> NegInfinity))"

text \<open>
  \<^verbatim>\<open>toNumber()\<close>: the value of the amount at its own precision, as a JavaScript number.
\<close>

fun toNumber :: "quotient \<Rightarrow> number" where
  "toNumber (Finite x) = nearestDouble (shiftedBy (inner x) (- int (precision x)))"
| "toNumber QInfinity = Infinity"
| "toNumber QNegInfinity = NegInfinity"
| "toNumber QNaN = NaN"

text \<open>The JavaScript comparisons \<^verbatim>\<open>n <= c\<close> and \<^verbatim>\<open>n < c\<close> of a number with a constant.\<close>

fun number_le :: "number \<Rightarrow> rat \<Rightarrow> bool" where
  "number_le (Number r) c = (r \<le> c)"
| "number_le Infinity c = False"
| "number_le NegInfinity c = True"
| "number_le NaN c = False"

fun number_less :: "number \<Rightarrow> rat \<Rightarrow> bool" where
  "number_less (Number r) c = (r < c)"
| "number_less Infinity c = False"
| "number_less NegInfinity c = True"
| "number_less NaN c = False"

section \<open>The transfer verification harness\<close>

datatype ResultCode = OK | WARN | FAIL

datatype TestCase = FeeEstimate | ExistentialDeposit

text \<open>
  Modelled from the spec: the type \<^verbatim>\<open>BalanceChangedStatus\<close>, declared in \<^verbatim>\<open>src/types\<close>.
  Its values are the states of a verification session (spec 4.5).
\<close>

datatype BalanceChangedStatus = PENDING | CHECKING | SUCCESS | TIMEOUT

text \<open>
  The errors of the repository (\<^verbatim>\<open>src/errors\<close>, spec 7), the \<^verbatim>\<open>Error\<close> that \<^verbatim>\<open>sendTx\<close> throws
  when a transfer does not arrive, and any other error that a library or a node raises,
  with its message.
\<close>

datatype error =
    ApiNotFound string
  | CurrencyNotFound string
  | AdapterNotFound string
  | RouteNotFound string string
  | FailedToTransfer FN TestCase
  | OtherError string

text \<open>
  The message of a test result: empty, the request to increase the fees (with the actual
  fee and the overestimation factor it prints), or the message of a caught error.
\<close>

datatype message = NoMessage | FeesNeedIncrease FN quotient | ErrorMessage error

record IndividualTestResult =
  message :: message
  result :: ResultCode

text \<open>
  What \<^verbatim>\<open>checkTransfer\<close> and \<^verbatim>\<open>sendTx\<close> ask of the bridge and of the two chains, for one
  triple of source chain, destination chain and token. The bridge and the adapters of a
  run are behind these calls, so each call is a field:
  \<^item> \<^verbatim>\<open>minInput\<close>: \<^verbatim>\<open>findAdapter(fromChain)\<close> and the first value of \<^verbatim>\<open>subscribeMinInput\<close>;
  \<^item> \<^verbatim>\<open>destED\<close>: the balance of \<^verbatim>\<open>getDestED(token, toChain)\<close>;
  \<^item> \<^verbatim>\<open>crossChainFee\<close>: the balance of \<^verbatim>\<open>getCrossChainFee(token, toChain)\<close>;
  \<^item> \<^verbatim>\<open>origin_createTx\<close>: what \<^verbatim>\<open>sendTx\<close> does before it submits an amount, the two adapter
    lookups, the origin adapter's \<^verbatim>\<open>createTx\<close> and the subscription to the balance
    changes of the destination: any of them may throw;
  \<^item> \<^verbatim>\<open>observe\<close>: given the amounts of all transfers submitted so far (the last one
    being the transfer under observation, to a fresh address), the last status of the
    destination's balance-changed stream that \<^verbatim>\<open>takeWhile\<close> lets through, and the free
    balance of the destination address read after it; or the error of a submission or
    of a stream that fails.
\<close>

record bridge_env =
  minInput :: "error + FN"
  destED :: "error + FN"
  crossChainFee :: "error + FN"
  origin_createTx :: "FN \<Rightarrow> error option"
  observe :: "FN list \<Rightarrow> error + BalanceChangedStatus \<times> FN"

text \<open>
  \<^verbatim>\<open>sendTx\<close>. The state is the list of the amounts submitted so far. A thrown error is
  \<open>Inl\<close>; the transfer has been submitted by then unless the error was thrown before.
\<close>

definition sendTx :: "bridge_env \<Rightarrow> FN list \<Rightarrow> FN \<Rightarrow> TestCase \<Rightarrow> (error + FN) \<times> FN list" where
  "sendTx env submitted sentAmount testCase =
     (case origin_createTx env sentAmount of
        Some e \<Rightarrow> (Inl e, submitted)
      | None \<Rightarrow>
          (let submitted' = submitted @ [sentAmount]
           in case observe env submitted' of
                Inl e \<Rightarrow> (Inl e, submitted')
              | Inr (status, newBalance) \<Rightarrow>
                  if status \<noteq> SUCCESS \<or> isZero newBalance
                  then (Inl (FailedToTransfer sentAmount testCase), submitted')
                  else (Inr (FN_minus sentAmount newBalance), submitted')))"

text \<open>The \<^verbatim>\<open>catch\<close> block of \<^verbatim>\<open>checkTransfer\<close>.\<close>

definition caught :: "error \<Rightarrow> IndividualTestResult" where
  "caught e = \<lparr>message = ErrorMessage e, result = FAIL\<rparr>"

text \<open>
  The end of \<^verbatim>\<open>checkTransfer\<close>, from the comment on the existential deposit on: the
  follow-up transfer, and the result \<^verbatim>\<open>ret\<close> of the fee check if it arrives.
\<close>

definition checkExistentialDeposit ::
  "bridge_env \<Rightarrow> FN list \<Rightarrow> FN \<Rightarrow> FN \<Rightarrow> IndividualTestResult
     \<Rightarrow> IndividualTestResult \<times> FN list" where
  "checkExistentialDeposit env submitted actualFee expectedEd ret =
     (let amountToSend =
            FN_plus (FN_plus actualFee expectedEd) (fromInner 1 (precision actualFee))
      in case sendTx env submitted amountToSend ExistentialDeposit of
           (Inl e, submitted') \<Rightarrow> (caught e, submitted')
         | (Inr fee, submitted') \<Rightarrow> (ret, submitted'))"

definition checkTransfer :: "bridge_env \<Rightarrow> FN list \<Rightarrow> IndividualTestResult \<times> FN list" where
  "checkTransfer env submitted =
     (case minInput env of
        Inl e \<Rightarrow> (caught e, submitted)
      | Inr expectedMinAmount \<Rightarrow>
     (case destED env of
        Inl e \<Rightarrow> (caught e, submitted)
      | Inr expectedEd \<Rightarrow>
     (case sendTx env submitted (FN_times expectedMinAmount (FN_new 10 18)) FeeEstimate of
        (Inl e, submitted1) \<Rightarrow> (caught e, submitted1)
      | (Inr actualFee, submitted1) \<Rightarrow>
     (case crossChainFee env of
        Inl e \<Rightarrow> (caught e, submitted1)
      | Inr feeBudget \<Rightarrow>
     (let feeOverestimationFactor = FN_div feeBudget actualFee;
          message = FeesNeedIncrease actualFee feeOverestimationFactor
      in if number_le (toNumber feeOverestimationFactor) 2
         then
           (if number_less (toNumber feeOverestimationFactor) 1
            then (\<lparr>message = message, result = FAIL\<rparr>, submitted1)
            else checkExistentialDeposit env submitted1 actualFee expectedEd
                   \<lparr>message = message, result = WARN\<rparr>)
         else checkExistentialDeposit env submitted1 actualFee expectedEd
                \<lparr>message = NoMessage, result = OK\<rparr>)))))"

section \<open>The retry orchestrator\<close>

text \<open>
  \<^verbatim>\<open>checkTransfer\<close> talks to live chains, so its result can differ from run to run:
  \<open>check k\<close> is the result of the run that starts after \<open>k\<close> earlier runs. The state
  counts the runs and keeps what \<^verbatim>\<open>retryCheckTransfer\<close> writes to the standard output.
\<close>

datatype stdout_line = AttemptFailed int int | GivingUp

record harness_state =
  attempts :: nat
  stdout :: "stdout_line list"

function retryCheckTransfer ::
  "(nat \<Rightarrow> IndividualTestResult) \<Rightarrow> int \<Rightarrow> int \<Rightarrow> harness_state
     \<Rightarrow> IndividualTestResult \<times> harness_state" where
  "retryCheckTransfer check maxAttempts attemptCount st =
     (let res = check (attempts st);
          st1 = st\<lparr>attempts := Suc (attempts st)\<rparr>
      in if result res = OK then (res, st1)
         else
           (let st2 = st1\<lparr>stdout := stdout st1 @ [AttemptFailed attemptCount maxAttempts]\<rparr>
            in if attemptCount < maxAttempts
               then retryCheckTransfer check maxAttempts (attemptCount + 1) st2
               else (res, st2\<lparr>stdout := stdout st2 @ [GivingUp]\<rparr>)))"
  by pat_completeness auto
termination
  by (relation "measure (\<lambda>(check, maxAttempts, attemptCount, st). nat (maxAttempts - attemptCount))")
    auto

declare retryCheckTransfer.simps [simp del]

text \<open>\<^verbatim>\<open>runTestCasesAndExit\<close> calls the orchestrator with three attempts, counted from 1.\<close>

definition runTestCase :: "(nat \<Rightarrow> IndividualTestResult) \<Rightarrow> harness_state
    \<Rightarrow> IndividualTestResult \<times> harness_state" where
  "runTestCase check st = retryCheckTransfer check 3 1 st"

section \<open>Chains, tokens and balances\<close>

text \<open>
  Modelled from the spec: the chain table \<^verbatim>\<open>chains\<close>, defined in \<^verbatim>\<open>src/configs\<close>. A chain
  has a unique id and a message-channel id (spec 3); the table, with an entry for every
  chain name, is the parameter \<open>chains_cfg\<close> of the functions that read it.
\<close>

record Chain =
  chain_id :: string
  paraChainId :: int

text \<open>
  Modelled from the spec: \<^verbatim>\<open>isChainEqual\<close>, defined in \<^verbatim>\<open>src/utils/is-chain-equal\<close>. Chains
  are identified by their id (spec 3).
\<close>

definition isChainEqual :: "Chain \<Rightarrow> string \<Rightarrow> bool" where
  "isChainEqual c1 c2 = (chain_id c1 = c2)"

text \<open>
  A token of a token table. The minimum balance \<^verbatim>\<open>ed\<close> is written in the tables as a
  string of decimal digits, in smallest units; it is kept here as the number it denotes.
\<close>

record BasicToken =
  name :: string
  symbol :: string
  decimals :: nat
  ed :: nat

record BalanceData =
  free :: FN
  locked :: FN
  reserved :: FN
  available :: FN

record CrossChainTransferParams =
  params_to :: string
  params_token :: string
  params_amount :: FN
  params_address :: string
  params_signer :: string

text \<open>The account record of \<^verbatim>\<open>derive.balances.all\<close>, in smallest units.\<close>

record DeriveBalancesAll =
  freeBalance :: nat
  lockedBalance :: nat
  reservedBalance :: nat
  availableBalance :: nat

text \<open>
  What the node answers at one moment. An observable built on the storage is a function
  of this state: each change of the state makes it emit the value for the new state, or
  raise an error.
  \<^item> \<^verbatim>\<open>derive_balances_all address\<close>: the native account record;
  \<^item> \<^verbatim>\<open>query_assets_account tokenId address\<close>: the \<^verbatim>\<open>balance\<close> field of the asset account,
    \<open>None\<close> when the account does not exist (\<^verbatim>\<open>unwrapOrDefault\<close> then gives no balance);
  \<^item> \<^verbatim>\<open>query_tokens_accounts address token\<close>: the \<^verbatim>\<open>free\<close> field of the token account,
    \<open>None\<close> when it is missing;
  \<^item> \<^verbatim>\<open>paymentInfo tx\<close>: the partial fee of a dry run of the transaction \<^verbatim>\<open>tx\<close>.
\<close>

datatype CurrencyId = Token string | ForeignAsset nat

record ('id, 'call) chain_state =
  derive_balances_all :: "string \<Rightarrow> DeriveBalancesAll"
  query_assets_account :: "'id \<Rightarrow> string \<Rightarrow> nat option"
  query_tokens_accounts :: "string \<Rightarrow> CurrencyId \<Rightarrow> nat option"
  paymentInfo :: "'call \<Rightarrow> nat"

type_synonym ('id, 'call, 'a) observable = "('id, 'call) chain_state \<Rightarrow> error + 'a"

text \<open>
  The handle of a chain API: the hex form of the account id of an address
  (\<^verbatim>\<open>createType("AccountId32", address).toHex()\<close>, which throws on a malformed address), the
  answer of \<^verbatim>\<open>supportsV0V1Multilocation\<close>, and the first token and its decimals in the
  chain's registry.
\<close>

record AnyApi =
  accountId32 :: "string \<Rightarrow> error + string"
  supportsV0V1Multilocation :: bool
  chainTokens :: string
  chainDecimals :: nat

text \<open>
  Modelled from the spec: the base class \<^verbatim>\<open>BalanceAdapter\<close>, defined in
  \<^verbatim>\<open>src/balance-adapter\<close>. It holds the chain, the chain's native fee-paying token and its
  decimals, which it reads from the API handle, and the token table; an unknown token
  symbol fails with \<^verbatim>\<open>CurrencyNotFound\<close> (spec 4.1).
\<close>

record BalanceAdapter =
  ba_chain :: string
  ba_decimals :: nat
  nativeToken :: string
  ba_tokens :: "string \<Rightarrow> BasicToken option"

definition new_BalanceAdapter :: "string \<Rightarrow> AnyApi \<Rightarrow> (string \<Rightarrow> BasicToken option) \<Rightarrow> BalanceAdapter" where
  "new_BalanceAdapter chain api tokens =
     \<lparr>ba_chain = chain, ba_decimals = chainDecimals api, nativeToken = chainTokens api,
      ba_tokens = tokens\<rparr>"

definition getToken :: "BalanceAdapter \<Rightarrow> string \<Rightarrow> error + BasicToken" where
  "getToken ba token =
     (case ba_tokens ba token of None \<Rightarrow> Inl (CurrencyNotFound token) | Some t \<Rightarrow> Inr t)"

text \<open>
  Modelled from the spec: the base class \<^verbatim>\<open>BaseCrossChainAdapter\<close>, defined in
  \<^verbatim>\<open>src/base-chain-adapter\<close>. An adapter binds a chain to a live API handle, absent until
  \<^verbatim>\<open>setApi\<close> (spec 3); \<^verbatim>\<open>getCrossChainFee\<close> and \<^verbatim>\<open>getDestWeight\<close> read the route table for a
  token and a destination and are fields here: they give the fee token with the fee
  amount, and the weight limit if the route has one, or throw.
\<close>

record 'ba adapter =
  this_api :: "AnyApi option"
  this_chain :: Chain
  this_balanceAdapter :: "'ba option"
  getCrossChainFee :: "string \<Rightarrow> string \<Rightarrow> error + string \<times> FN"
  getDestWeight :: "string \<Rightarrow> string \<Rightarrow> error + string option"

text \<open>
  Modelled from the spec: the type \<^verbatim>\<open>CrossChainRouterConfigs\<close>, declared in \<^verbatim>\<open>src/types\<close>,
  without its field \<^verbatim>\<open>from\<close>, as the adapters write their route tables. A route binds a
  destination chain and a token to a fee budget, in a fee token, and to a weight limit
  (spec 3). The fee amount is written as a string of decimal digits, in smallest units;
  it is kept here as the number it denotes.
\<close>

record CrossChainRouterConfigs =
  route_to :: string
  route_token :: string
  xcm_fee_token :: string
  xcm_fee_amount :: nat
  xcm_weightLimit :: string

text \<open>
  Modelled from the spec: the constructor of \<^verbatim>\<open>BaseCrossChainAdapter\<close>, which takes the chain,
  the route table and the token table, and its two readers of the route table. Both fail
  with \<^verbatim>\<open>RouteNotFound\<close> when the table has no route for the destination and the token
  (spec 4.3); the fee is the fee budget of the route, at the decimals of the fee token.
\<close>

definition new_BaseCrossChainAdapter ::
  "Chain \<Rightarrow> CrossChainRouterConfigs list \<Rightarrow> (string \<Rightarrow> BasicToken option) \<Rightarrow> 'ba adapter" where
  "new_BaseCrossChainAdapter chain routers tokens =
     \<lparr>this_api = None, this_chain = chain, this_balanceAdapter = None,
      getCrossChainFee = (\<lambda>token destChain.
        case find (\<lambda>e. route_to e = destChain \<and> route_token e = token) routers of
          None \<Rightarrow> Inl (RouteNotFound token destChain)
        | Some router \<Rightarrow>
            (case tokens (xcm_fee_token router) of
               None \<Rightarrow> Inl (CurrencyNotFound (xcm_fee_token router))
             | Some feeToken \<Rightarrow>
                 Inr (xcm_fee_token router,
                      fromInner (of_nat (xcm_fee_amount router)) (decimals feeToken)))),
      getDestWeight = (\<lambda>token destChain.
        case find (\<lambda>e. route_to e = destChain \<and> route_token e = token) routers of
          None \<Rightarrow> Inl (RouteNotFound token destChain)
        | Some router \<Rightarrow> Inr (Some (xcm_weightLimit router)))\<rparr>"

text \<open>
  Modelled from the spec: the method \<^verbatim>\<open>estimateTxFee\<close> of the base adapter. It is a
  dry-run cost estimate of the to-be-built message (spec 4.3): the message is built by
  the adapter's \<^verbatim>\<open>createTx\<close>, and the estimate follows the node.
\<close>

definition estimateTxFee ::
  "('p \<Rightarrow> error + 'call) \<Rightarrow> 'p \<Rightarrow> error + ('id, 'call, nat) observable" where
  "estimateTxFee createTx params =
     (case createTx params of
        Inl e \<Rightarrow> Inl e
      | Inr tx \<Rightarrow> Inr (\<lambda>s. Inr (paymentInfo s tx)))"

text \<open>
  What a subscription yields in a state of the node: the error thrown at the call, or else
  the value emitted, or the error raised, for that state.
\<close>

definition emission :: "error + ('s \<Rightarrow> error + 'a) \<Rightarrow> 's \<Rightarrow> error + 'a" where
  "emission subscription s = (case subscription of Inl e \<Rightarrow> Inl e | Inr obs \<Rightarrow> obs s)"

section \<open>Outbound messages\<close>

text \<open>
  The locations and assets of a cross-consensus message, and the calls that the adapters
  return: the call of the pallet with its arguments in order. An account junction holds
  the hex account id and, in the older encoding only, the network \<^verbatim>\<open>Any\<close>; a general key
  holds the raw token id or, in the newer encoding, its byte count and the padded id.
  Amounts are passed as \<^verbatim>\<open>toChainData()\<close> gives them.
\<close>

datatype junction =
    Parachain int
  | AccountId32 string "string option"
  | GeneralKey string
  | GeneralKeyV3 rat string

datatype interior = Here | X1 junction | X2 junction junction

record MultiLocation =
  parents :: nat
  interior :: interior

record MultiAsset =
  concrete :: MultiLocation
  fungible :: int

datatype 'a versioned = V1 'a | V3 'a

datatype 'c call =
    XTokens_transfer 'c int "MultiLocation versioned" "string option"
  | XTokens_transferMulticurrencies "('c \<times> int) list" nat "MultiLocation versioned" "string option"
  | PolkadotXcm_reserveTransferAssets
      "MultiLocation versioned" "MultiLocation versioned" "MultiAsset list versioned" nat
  | PolkadotXcm_reserveWithdrawAssets
      "MultiLocation versioned" "MultiLocation versioned" "MultiAsset list versioned" nat

text \<open>The destination argument of a call; it is used to state properties only.\<close>

fun call_dest :: "'c call \<Rightarrow> MultiLocation versioned" where
  "call_dest (XTokens_transfer c a dst w) = dst"
| "call_dest (XTokens_transferMulticurrencies cs i dst w) = dst"
| "call_dest (PolkadotXcm_reserveTransferAssets dst acc ass f) = dst"
| "call_dest (PolkadotXcm_reserveWithdrawAssets dst acc ass f) = dst"

section \<open>The Interlay and Kintsugi adapter\<close>

definition DEST_WEIGHT :: string where
  "DEST_WEIGHT = ''5000000000''"

definition interlayRoutersConfig :: "CrossChainRouterConfigs list" where
  "interlayRoutersConfig =
     [\<lparr>route_to = ''polkadot'', route_token = ''DOT'',
       xcm_fee_token = ''DOT'', xcm_fee_amount = 0, xcm_weightLimit = DEST_WEIGHT\<rparr>,
      \<lparr>route_to = ''statemint'', route_token = ''USDT'',
       xcm_fee_token = ''DOT'', xcm_fee_amount = 1000000000, xcm_weightLimit = DEST_WEIGHT\<rparr>]"

definition kintsugiRoutersConfig :: "CrossChainRouterConfigs list" where
  "kintsugiRoutersConfig =
     [\<lparr>route_to = ''kusama'', route_token = ''KSM'',
       xcm_fee_token = ''KSM'', xcm_fee_amount = 10, xcm_weightLimit = DEST_WEIGHT\<rparr>,
      \<lparr>route_to = ''statemine'', route_token = ''USDT'',
       xcm_fee_token = ''USDT'', xcm_fee_amount = 10, xcm_weightLimit = DEST_WEIGHT\<rparr>]"

definition interlayTokensConfig :: "string \<Rightarrow> string \<Rightarrow> BasicToken option" where
  "interlayTokensConfig chainname =
     (if chainname = ''interlay'' then
        [''DOT'' \<mapsto> \<lparr>name = ''DOT'', symbol = ''DOT'', decimals = 10, ed = 0\<rparr>,
         ''USDT'' \<mapsto> \<lparr>name = ''USDT'', symbol = ''USDT'', decimals = 6, ed = 0\<rparr>]
      else if chainname = ''kintsugi'' then
        [''KSM'' \<mapsto> \<lparr>name = ''KSM'', symbol = ''KSM'', decimals = 12, ed = 0\<rparr>,
         ''USDT'' \<mapsto> \<lparr>name = ''USDT'', symbol = ''USDT'', decimals = 6, ed = 0\<rparr>]
      else Map.empty)"

definition KINTSUGI_SUPPORTED_TOKENS :: "string \<Rightarrow> CurrencyId option" where
  "KINTSUGI_SUPPORTED_TOKENS = [''KSM'' \<mapsto> Token ''KSM'', ''USDT'' \<mapsto> ForeignAsset 3]"

definition INTERLAY_SUPPORTED_TOKENS :: "string \<Rightarrow> CurrencyId option" where
  "INTERLAY_SUPPORTED_TOKENS = [''DOT'' \<mapsto> Token ''DOT'', ''USDT'' \<mapsto> ForeignAsset 2]"

definition getSupportedTokens :: "string \<Rightarrow> string \<Rightarrow> CurrencyId option" where
  "getSupportedTokens chainname =
     (if chainname = ''interlay'' then INTERLAY_SUPPORTED_TOKENS else KINTSUGI_SUPPORTED_TOKENS)"

text \<open>
  \<^verbatim>\<open>InterlayBalanceAdapter.subscribeBalance\<close>. An unknown token is thrown at the call; the
  token's decimals are looked up at each emission.
\<close>

definition interlay_subscribeBalance ::
  "BalanceAdapter \<Rightarrow> string \<Rightarrow> string \<Rightarrow> error + ('id, 'call, BalanceData) observable" where
  "interlay_subscribeBalance this token address =
     (case getSupportedTokens (ba_chain this) token of
        None \<Rightarrow> Inl (CurrencyNotFound token)
      | Some tokenId \<Rightarrow>
          Inr (\<lambda>s. case getToken this token of
                 Inl e \<Rightarrow> Inl e
               | Inr tokenMeta \<Rightarrow>
                   (let amount = fromInner
                          (case query_tokens_accounts s address tokenId of
                             None \<Rightarrow> 0 | Some balance \<Rightarrow> of_nat balance)
                          (decimals tokenMeta)
                    in Inr \<lparr>free = amount, locked = FN_new 0 18, reserved = FN_new 0 18,
                            available = amount\<rparr>)))"

definition interlay_setApi :: "BalanceAdapter adapter \<Rightarrow> AnyApi \<Rightarrow> BalanceAdapter adapter" where
  "interlay_setApi this api =
     (let chain = chain_id (this_chain this)
      in this\<lparr>this_api := Some api,
              this_balanceAdapter :=
                Some (new_BalanceAdapter chain api (interlayTokensConfig chain))\<rparr>)"

definition interlay_createTx ::
  "(string \<Rightarrow> Chain) \<Rightarrow> BalanceAdapter adapter \<Rightarrow> CrossChainTransferParams
     \<Rightarrow> error + CurrencyId call" where
  "interlay_createTx chains_cfg this params =
     (case this_api this of
        None \<Rightarrow> Inl (ApiNotFound (chain_id (this_chain this)))
      | Some api \<Rightarrow>
     (let address = params_address params; amount = params_amount params;
          to = params_to params; token = params_token params;
          toChain = chains_cfg to
      in case accountId32 api address of
           Inl e \<Rightarrow> Inl e
         | Inr accountId \<Rightarrow>
     (case getSupportedTokens (chain_id (this_chain this)) token of
        None \<Rightarrow> Inl (CurrencyNotFound token)
      | Some tokenId \<Rightarrow>
     (let dst = \<lparr>parents = 1,
                  interior = X2 (Parachain (paraChainId toChain))
                               (AccountId32 accountId (Some ''Any''))\<rparr>;
          dst = (if isChainEqual toChain ''kusama'' \<or> isChainEqual toChain ''polkadot''
                 then \<lparr>parents = 1, interior = X1 (AccountId32 accountId (Some ''Any''))\<rparr>
                 else dst)
      in if isChainEqual toChain ''statemine'' \<or> isChainEqual toChain ''statemint''
         then
           (case getCrossChainFee this token to of
              Inl e \<Rightarrow> Inl e
            | Inr destFee \<Rightarrow>
           (case getDestWeight this token to of
              Inl e \<Rightarrow> Inl e
            | Inr destWeight \<Rightarrow>
                Inr (XTokens_transferMulticurrencies
                       [(tokenId, toChainData amount),
                        (Token (fst destFee), toChainData (snd destFee))]
                       1 (V1 dst) destWeight)))
         else
           (case getDestWeight this token to of
              Inl e \<Rightarrow> Inl e
            | Inr destWeight \<Rightarrow>
                Inr (XTokens_transfer tokenId (toChainData amount) (V1 dst) destWeight))))))"

text \<open>
  \<^verbatim>\<open>subscribeMaxInput\<close> of the Interlay adapter. The fee estimate is made first, for the
  native token only; then the balance is subscribed. At each emission the latest fee and
  the latest available balance are combined.
\<close>

definition interlay_subscribeMaxInput ::
  "(string \<Rightarrow> Chain) \<Rightarrow> BalanceAdapter adapter \<Rightarrow> string \<Rightarrow> string \<Rightarrow> string
     \<Rightarrow> error + ('id, CurrencyId call, FN) observable" where
  "interlay_subscribeMaxInput chains_cfg this token address to =
     (case this_balanceAdapter this of
        None \<Rightarrow> Inl (ApiNotFound (chain_id (this_chain this)))
      | Some ba \<Rightarrow>
     (case (if token = nativeToken ba
            then estimateTxFee (interlay_createTx chains_cfg this)
                   \<lparr>params_to = to, params_token = token, params_amount = FN_ZERO,
                    params_address = address, params_signer = address\<rparr>
            else Inr (\<lambda>s. Inr 0)) of
        Inl e \<Rightarrow> Inl e
      | Inr txFee_observable \<Rightarrow>
     (case interlay_subscribeBalance ba token address of
        Inl e \<Rightarrow> Inl e
      | Inr balance_observable \<Rightarrow>
          Inr (\<lambda>s.
            case txFee_observable s of
              Inl e \<Rightarrow> Inl e
            | Inr txFee \<Rightarrow>
           (case balance_observable s of
              Inl e \<Rightarrow> Inl e
            | Inr i \<Rightarrow>
           (let balance = available i
            in case getToken ba token of
                 Inl e \<Rightarrow> Inl e
               | Inr tokenMeta \<Rightarrow>
                  (let feeFactor = 6 / 5;
                       fee = FN_times (fromInner (of_nat txFee) (decimals tokenMeta))
                               (FN_new feeFactor 18)
                   in Inr (FN_minus (FN_minus balance fee)
                             (fromInner (of_nat (ed tokenMeta)) (decimals tokenMeta))))))))))"

text \<open>
  The two adapters of \<^verbatim>\<open>interlay.ts\<close>, as their constructors make them, with the entries of
  the chain table.
\<close>

definition new_InterlayAdapter :: "(string \<Rightarrow> Chain) \<Rightarrow> BalanceAdapter adapter" where
  "new_InterlayAdapter chains_cfg =
     new_BaseCrossChainAdapter (chains_cfg ''interlay'') interlayRoutersConfig
       (interlayTokensConfig ''interlay'')"

definition new_KintsugiAdapter :: "(string \<Rightarrow> Chain) \<Rightarrow> BalanceAdapter adapter" where
  "new_KintsugiAdapter chains_cfg =
     new_BaseCrossChainAdapter (chains_cfg ''kintsugi'') kintsugiRoutersConfig
       (interlayTokensConfig ''kintsugi'')"

section \<open>The Astar adapter\<close>

definition astarRoutersConfig :: "CrossChainRouterConfigs list" where
  "astarRoutersConfig =
     [\<lparr>route_to = ''interlay'', route_token = ''IBTC'',
       xcm_fee_token = ''IBTC'', xcm_fee_amount = 710, xcm_weightLimit = ''Unlimited''\<rparr>,
      \<lparr>route_to = ''interlay'', route_token = ''INTR'',
       xcm_fee_token = ''INTR'', xcm_fee_amount = 216604720,
       xcm_weightLimit = ''Unlimited''\<rparr>]"

definition astarTokensConfig :: "string \<Rightarrow> string \<Rightarrow> BasicToken option" where
  "astarTokensConfig chainname =
     (if chainname = ''astar'' then
        [''ASTR'' \<mapsto> \<lparr>name = ''ASTR'', symbol = ''ASTR'', decimals = 18, ed = 1000000\<rparr>,
         ''IBTC'' \<mapsto> \<lparr>name = ''IBTC'', symbol = ''IBTC'', decimals = 8, ed = 1\<rparr>,
         ''INTR'' \<mapsto> \<lparr>name = ''INTR'', symbol = ''INTR'', decimals = 10, ed = 1\<rparr>]
      else Map.empty)"

definition astar_SUPPORTED_TOKENS :: "string \<Rightarrow> string option" where
  "astar_SUPPORTED_TOKENS =
     [''IBTC'' \<mapsto> ''18446744073709551620'', ''INTR'' \<mapsto> ''18446744073709551621'']"

definition astar_subscribeBalance ::
  "BalanceAdapter \<Rightarrow> string \<Rightarrow> string \<Rightarrow> error + (string, 'call, BalanceData) observable" where
  "astar_subscribeBalance this token address =
     (if token = nativeToken this
      then Inr (\<lambda>s. let data = derive_balances_all s address
                     in Inr \<lparr>free = fromInner (of_nat (freeBalance data)) (ba_decimals this),
                             locked = fromInner (of_nat (lockedBalance data)) (ba_decimals this),
                             reserved = fromInner (of_nat (reservedBalance data)) (ba_decimals this),
                             available =
                               fromInner (of_nat (availableBalance data)) (ba_decimals this)\<rparr>)
      else
        (case astar_SUPPORTED_TOKENS token of
           None \<Rightarrow> Inl (CurrencyNotFound token)
         | Some tokenId \<Rightarrow>
             Inr (\<lambda>s. case getToken this token of
                    Inl e \<Rightarrow> Inl e
                  | Inr tokenMeta \<Rightarrow>
                      (let amount = fromInner
                             (case query_assets_account s tokenId address of
                                None \<Rightarrow> 0 | Some balance \<Rightarrow> of_nat balance)
                             (decimals tokenMeta)
                       in Inr \<lparr>free = amount, locked = FN_new 0 18, reserved = FN_new 0 18,
                               available = amount\<rparr>))))"

definition astar_setApi :: "BalanceAdapter adapter \<Rightarrow> AnyApi \<Rightarrow> BalanceAdapter adapter" where
  "astar_setApi this api =
     (let chain = chain_id (this_chain this)
      in this\<lparr>this_api := Some api,
              this_balanceAdapter :=
                Some (new_BalanceAdapter chain api (astarTokensConfig chain))\<rparr>)"

text \<open>
  \<^verbatim>\<open>String.prototype.padEnd(targetLength, padString)\<close>: a string that is long enough is
  returned as it is; otherwise the pad string is repeated, and cut at the end, to fill
  the missing length.
\<close>

definition padEnd :: "string \<Rightarrow> nat \<Rightarrow> string \<Rightarrow> string" where
  "padEnd str targetLength padString =
     (if targetLength \<le> length str \<or> padString = [] then str
      else str @ take (targetLength - length str)
                   (concat (replicate (targetLength - length str) padString)))"

text \<open>
  \<^verbatim>\<open>String.prototype.replace(pattern, replacement)\<close> with a string pattern: the first
  occurrence of the pattern is replaced.
\<close>

fun replace :: "string \<Rightarrow> string \<Rightarrow> string \<Rightarrow> string" where
  "replace [] pattern replacement =
     (if pattern = [] then replacement else [])"
| "replace (c # cs) pattern replacement =
     (if take (length pattern) (c # cs) = pattern
      then replacement @ drop (length pattern) (c # cs)
      else c # replace cs pattern replacement)"

definition astar_tokenIds :: "string \<Rightarrow> string option" where
  "astar_tokenIds = [''IBTC'' \<mapsto> ''0x0001'', ''INTR'' \<mapsto> ''0x0002'']"

text \<open>The two constants that \<^verbatim>\<open>createTx\<close> computes from a token id.\<close>

definition tokenIdByteCount :: "string \<Rightarrow> rat" where
  "tokenIdByteCount tokenId = of_nat (length (replace tokenId ''0x'' [])) / 2"

definition paddedTokenId :: "nat \<Rightarrow> string \<Rightarrow> string" where
  "paddedTokenId XCM_V3_GENERAL_KEY_DATA_BYTES tokenId =
     padEnd tokenId (2 * XCM_V3_GENERAL_KEY_DATA_BYTES + 2) ''00''"

text \<open>
  \<^verbatim>\<open>createTx\<close> of the Astar adapter. The constant \<^verbatim>\<open>XCM_V3_GENERAL_KEY_DATA_BYTES\<close> of
  \<^verbatim>\<open>src/utils/xcm-versioned-multilocation-check\<close>, a constant of the protocol, is the
  first parameter.
\<close>

definition astar_createTx ::
  "nat \<Rightarrow> (string \<Rightarrow> Chain) \<Rightarrow> BalanceAdapter adapter \<Rightarrow> CrossChainTransferParams
     \<Rightarrow> error + unit call" where
  "astar_createTx XCM_V3_GENERAL_KEY_DATA_BYTES chains_cfg this params =
     (case this_api this of
        None \<Rightarrow> Inl (ApiNotFound (chain_id (this_chain this)))
      | Some api \<Rightarrow>
     (let address = params_address params; amount = params_amount params;
          to = params_to params; token = params_token params;
          toChain = chains_cfg to
      in case accountId32 api address of
           Inl e \<Rightarrow> Inl e
         | Inr accountId \<Rightarrow>
     (let supportsV1 = supportsV0V1Multilocation api;
          (dst, acc, ass) =
            (if supportsV1
             then (V1 \<lparr>parents = 1, interior = X1 (Parachain (paraChainId toChain))\<rparr>,
                   V1 \<lparr>parents = 0, interior = X1 (AccountId32 accountId (Some ''Any''))\<rparr>,
                   V1 [\<lparr>concrete = \<lparr>parents = 0, interior = Here\<rparr>,
                        fungible = toChainData amount\<rparr>])
             else (V3 \<lparr>parents = 1, interior = X1 (Parachain (paraChainId toChain))\<rparr>,
                   V3 \<lparr>parents = 0, interior = X1 (AccountId32 accountId None)\<rparr>,
                   V3 [\<lparr>concrete = \<lparr>parents = 0, interior = Here\<rparr>,
                        fungible = toChainData amount\<rparr>]))
      in if Some token = map_option nativeToken (this_balanceAdapter this)
         then Inr (PolkadotXcm_reserveTransferAssets dst acc ass 0)
         else
           (case astar_tokenIds token of
              None \<Rightarrow> Inl (CurrencyNotFound token)
            | Some tokenId \<Rightarrow>
                (let ass =
                   (if supportsV1
                    then V1 [\<lparr>concrete =
                                \<lparr>parents = 1,
                                 interior = X2 (Parachain (paraChainId toChain))
                                              (GeneralKey tokenId)\<rparr>,
                              fungible = toChainData amount\<rparr>]
                    else V3 [\<lparr>concrete =
                                \<lparr>parents = 1,
                                 interior = X2 (Parachain (paraChainId toChain))
                                              (GeneralKeyV3 (tokenIdByteCount tokenId)
                                                 (paddedTokenId XCM_V3_GENERAL_KEY_DATA_BYTES
                                                    tokenId))\<rparr>,
                              fungible = toChainData amount\<rparr>])
                 in Inr (PolkadotXcm_reserveWithdrawAssets dst acc ass 0))))))"

definition astar_subscribeMaxInput ::
  "nat \<Rightarrow> (string \<Rightarrow> Chain) \<Rightarrow> BalanceAdapter adapter \<Rightarrow> string \<Rightarrow> string \<Rightarrow> string
     \<Rightarrow> error + (string, unit call, FN) observable" where
  "astar_subscribeMaxInput XCM_V3_GENERAL_KEY_DATA_BYTES chains_cfg this token address to =
     (case this_balanceAdapter this of
        None \<Rightarrow> Inl (ApiNotFound (chain_id (this_chain this)))
      | Some ba \<Rightarrow>
     (case (if token = nativeToken ba
            then estimateTxFee (astar_createTx XCM_V3_GENERAL_KEY_DATA_BYTES chains_cfg this)
                   \<lparr>params_to = to, params_token = token, params_amount = FN_ZERO,
                    params_address = address, params_signer = address\<rparr>
            else Inr (\<lambda>s. Inr 0)) of
        Inl e \<Rightarrow> Inl e
      | Inr txFee_observable \<Rightarrow>
     (case astar_subscribeBalance ba token address of
        Inl e \<Rightarrow> Inl e
      | Inr balance_observable \<Rightarrow>
          Inr (\<lambda>s.
            case txFee_observable s of
              Inl e \<Rightarrow> Inl e
            | Inr txFee \<Rightarrow>
           (case balance_observable s of
              Inl e \<Rightarrow> Inl e
            | Inr i \<Rightarrow>
           (let balance = available i
            in case getToken ba token of
                 Inl e \<Rightarrow> Inl e
               | Inr tokenMeta \<Rightarrow>
                  (let feeFactor = 6 / 5;
                       fee = FN_times (fromInner (of_nat txFee) (decimals tokenMeta))
                               (FN_new feeFactor 18)
                   in Inr (FN_minus (FN_minus balance fee)
                             (fromInner (of_nat (ed tokenMeta)) (decimals tokenMeta))))))))))"

text \<open>The adapter of \<^verbatim>\<open>astar.ts\<close>, as its constructor makes it.\<close>

definition new_AstarAdapter :: "(string \<Rightarrow> Chain) \<Rightarrow> BalanceAdapter adapter" where
  "new_AstarAdapter chains_cfg =
     new_BaseCrossChainAdapter (chains_cfg ''astar'') astarRoutersConfig
       (astarTokensConfig ''astar'')"

section \<open>The Parallel and Heiko adapter\<close>

definition parallel_SUPPORTED_TOKENS :: "string \<Rightarrow> nat option" where
  "parallel_SUPPORTED_TOKENS =
     [''HKO'' \<mapsto> 0, ''KAR'' \<mapsto> 107, ''KUSD'' \<mapsto> 103, ''LKSM'' \<mapsto> 109,
      ''PARA'' \<mapsto> 1, ''ACA'' \<mapsto> 108, ''AUSD'' \<mapsto> 104, ''LDOT'' \<mapsto> 110]"

text \<open>
  The test \<^verbatim>\<open>!tokenId\<close> on the result of a table lookup: it holds for a missing entry
  (\<^verbatim>\<open>undefined\<close>) and for the number zero.
\<close>

fun falsy :: "nat option \<Rightarrow> bool" where
  "falsy None = True"
| "falsy (Some n) = (n = 0)"

text \<open>
  Modelled from the spec: the methods \<^verbatim>\<open>getTokenDecimals\<close> and \<^verbatim>\<open>getTokenED\<close> of the
  \<^verbatim>\<open>BalanceAdapter\<close> that the Parallel adapter is written against. They give a token's
  decimal precision and its minimum balance to exist (spec 3), the latter as a stream
  whose value may be missing; both are fields here, and may throw.
\<close>

record ParallelBalanceAdapter =
  parallel_nativeToken :: string
  parallel_decimals :: nat
  getTokenDecimals :: "string \<Rightarrow> error + nat"
  getTokenED :: "string \<Rightarrow> error + FN option"

definition parallel_subscribeBalance ::
  "ParallelBalanceAdapter \<Rightarrow> string \<Rightarrow> string \<Rightarrow> error + (nat, 'call, BalanceData) observable" where
  "parallel_subscribeBalance this token address =
     (if token = parallel_nativeToken this
      then Inr (\<lambda>s. let data = derive_balances_all s address
                     in Inr \<lparr>free = fromInner (of_nat (freeBalance data)) (parallel_decimals this),
                             locked =
                               fromInner (of_nat (lockedBalance data)) (parallel_decimals this),
                             reserved =
                               fromInner (of_nat (reservedBalance data)) (parallel_decimals this),
                             available =
                               fromInner (of_nat (availableBalance data))
                                 (parallel_decimals this)\<rparr>)
      else
        (let tokenId = parallel_SUPPORTED_TOKENS token
         in if falsy tokenId then Inl (CurrencyNotFound token)
            else
              Inr (\<lambda>s. case getTokenDecimals this token of
                     Inl e \<Rightarrow> Inl e
                   | Inr tokenDecimals \<Rightarrow>
                       (let amount = fromInner
                              (case query_assets_account s (the tokenId) address of
                                 None \<Rightarrow> 0 | Some balance \<Rightarrow> of_nat balance)
                              tokenDecimals
                        in Inr \<lparr>free = amount, locked = FN_new 0 18, reserved = FN_new 0 18,
                                available = amount\<rparr>))))"

definition parallel_createTx ::
  "(string \<Rightarrow> Chain) \<Rightarrow> ParallelBalanceAdapter adapter \<Rightarrow> CrossChainTransferParams
     \<Rightarrow> error + nat call" where
  "parallel_createTx chains_cfg this params =
     (case this_api this of
        None \<Rightarrow> Inl (ApiNotFound (chain_id (this_chain this)))
      | Some api \<Rightarrow>
     (let address = params_address params; amount = params_amount params;
          to = params_to params; token = params_token params;
          toChain = chains_cfg to
      in case accountId32 api address of
           Inl e \<Rightarrow> Inl e
         | Inr accountId \<Rightarrow>
     (let tokenId = parallel_SUPPORTED_TOKENS token
      in if falsy tokenId then Inl (CurrencyNotFound token)
         else
           (case getDestWeight this token to of
              Inl e \<Rightarrow> Inl e
            | Inr destWeight \<Rightarrow>
                Inr (XTokens_transfer (the tokenId) (toChainData amount)
                       (V1 \<lparr>parents = 1,
                            interior = X2 (Parachain (paraChainId toChain))
                                         (AccountId32 accountId (Some ''Any''))\<rparr>)
                       destWeight)))))"

definition parallel_subscribeMaxInput ::
  "(string \<Rightarrow> Chain) \<Rightarrow> ParallelBalanceAdapter adapter \<Rightarrow> string \<Rightarrow> string \<Rightarrow> string
     \<Rightarrow> error + (nat, nat call, FN) observable" where
  "parallel_subscribeMaxInput chains_cfg this token address to =
     (case this_balanceAdapter this of
        None \<Rightarrow> Inl (ApiNotFound (chain_id (this_chain this)))
      | Some ba \<Rightarrow>
     (case (if token = parallel_nativeToken ba
            then estimateTxFee (parallel_createTx chains_cfg this)
                   \<lparr>params_to = to, params_token = token, params_amount = FN_ZERO,
                    params_address = address, params_signer = address\<rparr>
            else Inr (\<lambda>s. Inr 0)) of
        Inl e \<Rightarrow> Inl e
      | Inr txFee_observable \<Rightarrow>
     (case parallel_subscribeBalance ba token address of
        Inl e \<Rightarrow> Inl e
      | Inr balance_observable \<Rightarrow>
     (case getTokenED ba token of
        Inl e \<Rightarrow> Inl e
      | Inr tokenED \<Rightarrow>
          Inr (\<lambda>s.
            case txFee_observable s of
              Inl e \<Rightarrow> Inl e
            | Inr txFee \<Rightarrow>
           (case balance_observable s of
              Inl e \<Rightarrow> Inl e
            | Inr i \<Rightarrow>
           (let balance = available i
            in case getTokenDecimals ba token of
                 Inl e \<Rightarrow> Inl e
               | Inr tokenDecimals \<Rightarrow>
                  (let feeFactor = 6 / 5;
                       fee = FN_times (fromInner (of_nat txFee) tokenDecimals)
                               (FN_new feeFactor 18)
                   in Inr (FN_minus (FN_minus balance fee)
                             (case tokenED of None \<Rightarrow> FN_ZERO | Some fn \<Rightarrow> fn))))))))))"

text \<open>
  \<^verbatim>\<open>setApi\<close> of the Parallel adapter; the token metadata of its balance adapter are the
  last two parameters.
\<close>

definition parallel_setApi ::
  "ParallelBalanceAdapter adapter \<Rightarrow> AnyApi \<Rightarrow> (string \<Rightarrow> error + nat)
     \<Rightarrow> (string \<Rightarrow> error + FN option) \<Rightarrow> ParallelBalanceAdapter adapter" where
  "parallel_setApi this api tokenDecimals tokenED =
     this\<lparr>this_api := Some api,
          this_balanceAdapter :=
            Some \<lparr>parallel_nativeToken = chainTokens api, parallel_decimals = chainDecimals api,
                  getTokenDecimals = tokenDecimals, getTokenED = tokenED\<rparr>\<rparr>"

text \<open>
  The hexadecimal form of a byte string, as the token ids above are written: \<^verbatim>\<open>0x\<close> and
  two digits for each byte. It is used to state properties only.
\<close>

definition hexDigit :: "nat \<Rightarrow> char" where
  "hexDigit n = ''0123456789abcdef'' ! (n mod 16)"

definition hexByte :: "nat \<Rightarrow> string" where
  "hexByte b = [hexDigit (b div 16), hexDigit b]"

definition toHex :: "nat list \<Rightarrow> string" where
  "toHex bytes = ''0x'' @ concat (map hexByte bytes)"

text \<open>
  The maximal input in the words of the specification (4.3): the available balance minus
  the fee factor 1.2 times the estimated transaction fee minus the minimum balance to
  exist.
\<close>

definition maxSendable_spec :: "rat \<Rightarrow> rat \<Rightarrow> rat \<Rightarrow> rat" where
  "maxSendable_spec available_balance estimatedTxFee minimumBalanceToExist =
     available_balance - 12 / 10 * estimatedTxFee - minimumBalanceToExist"

section \<open>Sample inputs\<close>

text \<open>
  A route with a fee budget of 100 smallest units, a minimum balance of 10 and a minimum
  input of 100, at 12 decimals. The first transfer (of 1000) costs \<open>fee\<close>; after the
  follow-up transfer the fresh destination address holds \<open>after\<close>, and the balance stream
  times out when that is nothing.
\<close>

definition example_env :: "rat \<Rightarrow> rat \<Rightarrow> bridge_env" where
  "example_env fee after =
     \<lparr>minInput = Inr (fromInner 100 12),
      destED = Inr (fromInner 10 12),
      crossChainFee = Inr (fromInner 100 12),
      origin_createTx = (\<lambda>amount. None),
      observe = (\<lambda>submitted.
         if length submitted = 1 then Inr (SUCCESS, fromInner (1000 - fee) 12)
         else Inr (if after = 0 then TIMEOUT else SUCCESS, fromInner after 12))\<rparr>"


definition initial_state :: harness_state where
  "initial_state = \<lparr>attempts = 0, stdout = []\<rparr>"

text \<open>A check that warns on its first run and times out on every later one.\<close>

definition warn_then_timeout :: "nat \<Rightarrow> IndividualTestResult" where
  "warn_then_timeout k =
     (if k = 0
      then \<lparr>message = FeesNeedIncrease (fromInner 100 12) (Finite (fromInner 1000000000000 12)),
            result = WARN\<rparr>
      else caught (FailedToTransfer (fromInner 1000 12) FeeEstimate))"

text \<open>A check that times out on its first run and passes on every later one.\<close>

definition timeout_then_OK :: "nat \<Rightarrow> IndividualTestResult" where
  "timeout_then_OK k =
     (if k = 0
      then caught (FailedToTransfer (fromInner 1000 12) FeeEstimate)
      else \<lparr>message = NoMessage, result = OK\<rparr>)"

text \<open>A check that times out on every run; run \<open>k\<close> has sent \<open>1000 + k\<close>.\<close>

definition always_timeout :: "nat \<Rightarrow> IndividualTestResult" where
  "always_timeout k = caught (FailedToTransfer (fromInner (1000 + of_nat k) 12) FeeEstimate)"

text \<open>
  Chains with their message-channel ids, an API handle that takes every non-empty address,
  the adapters after \<^verbatim>\<open>setApi\<close>, and a node that shows the same balance for every account and
  quotes the same fee for every transaction.
\<close>

definition sample_chains :: "string \<Rightarrow> Chain" where
  "sample_chains c =
     \<lparr>chain_id = c,
      paraChainId =
        (if c = ''kusama'' \<or> c = ''polkadot'' then - 1
         else if c = ''statemine'' \<or> c = ''statemint'' then 1000
         else if c = ''karura'' \<or> c = ''acala'' then 2000
         else if c = ''interlay'' then 2032
         else 2092)\<rparr>"

definition sample_api :: "string \<Rightarrow> nat \<Rightarrow> bool \<Rightarrow> AnyApi" where
  "sample_api nativeTokenSymbol nativeDecimals v1 =
     \<lparr>accountId32 = (\<lambda>address. if address = [] then Inl (OtherError ''Invalid decoded address'')
                                else Inr (''0x'' @ address)),
      supportsV0V1Multilocation = v1,
      chainTokens = nativeTokenSymbol,
      chainDecimals = nativeDecimals\<rparr>"

text \<open>
  The route table and the token table of the Parallel chain belong to \<^verbatim>\<open>src/configs\<close>; the
  sample adapter has one route, for its native token to Acala.
\<close>

definition sample_parallel_routers :: "CrossChainRouterConfigs list" where
  "sample_parallel_routers =
     [\<lparr>route_to = ''acala'', route_token = ''PARA'',
       xcm_fee_token = ''PARA'', xcm_fee_amount = 6400000000,
       xcm_weightLimit = ''5000000000''\<rparr>]"

definition sample_parallel_tokens :: "string \<Rightarrow> BasicToken option" where
  "sample_parallel_tokens =
     [''PARA'' \<mapsto> \<lparr>name = ''PARA'', symbol = ''PARA'', decimals = 12, ed = 100000000000\<rparr>]"

definition KintsugiAdapter :: "BalanceAdapter adapter" where
  "KintsugiAdapter =
     interlay_setApi (new_KintsugiAdapter sample_chains) (sample_api ''KINT'' 12 True)"

definition InterlayAdapter :: "BalanceAdapter adapter" where
  "InterlayAdapter =
     interlay_setApi (new_InterlayAdapter sample_chains) (sample_api ''INTR'' 10 True)"

definition AstarAdapter :: "BalanceAdapter adapter" where
  "AstarAdapter = astar_setApi (new_AstarAdapter sample_chains) (sample_api ''ASTR'' 18 False)"

definition ParallelAdapter :: "ParallelBalanceAdapter adapter" where
  "ParallelAdapter =
     parallel_setApi
       (new_BaseCrossChainAdapter (sample_chains ''parallel'') sample_parallel_routers
          sample_parallel_tokens)
       (sample_api ''PARA'' 12 True)
       (\<lambda>token. Inr 12) (\<lambda>token. Inr (Some (fromInner 100000000000 12)))"

definition sample_state :: "nat \<Rightarrow> nat \<Rightarrow> ('id, 'call) chain_state" where
  "sample_state balance fee =
     \<lparr>derive_balances_all =
        (\<lambda>address. \<lparr>freeBalance = balance, lockedBalance = 0, reservedBalance = 0,
                     availableBalance = balance\<rparr>),
      query_assets_account = (\<lambda>tokenId address. if balance = 0 then None else Some balance),
      query_tokens_accounts = (\<lambda>address tokenId. if balance = 0 then None else Some balance),
      paymentInfo = (\<lambda>tx. fee)\<rparr>"

section \<open>Properties of fixed-point amounts\<close>

lemma shiftedBy_diff: "shiftedBy x (int a - int b) = x * 10 ^ a / 10 ^ b"
proof (cases "b \<le> a")
  case True
  then have "(10::rat) ^ (a - b) = 10 ^ a / 10 ^ b"
    by (simp add: power_diff)
  with True show ?thesis
    by (simp add: shiftedBy_def nat_diff_distrib')
next
  case False
  then have "a \<le> b" by simp
  then have "(10::rat) ^ (b - a) = 10 ^ b / 10 ^ a"
    by (simp add: power_diff)
  with False show ?thesis
    by (simp add: shiftedBy_def nat_diff_distrib')
qed

lemma shiftedBy_neg: "shiftedBy x (- int p) = x / 10 ^ p"
  using shiftedBy_diff [of x 0 p] by simp

lemma shiftedBy_pos: "shiftedBy x (int p) = x * 10 ^ p"
  by (simp add: shiftedBy_def)

lemma FN_value_setPrecision: "FN_value (setPrecision x p) = FN_value x"
  by (simp add: FN_value_def setPrecision_def shiftedBy_diff)

lemma FN_value_fromInner: "FN_value (fromInner x p) = x / 10 ^ p"
  by (simp add: FN_value_def fromInner_def)

lemma FN_value_new: "FN_value (FN_new x p) = x"
  by (simp add: FN_value_def FN_new_def shiftedBy_pos)

lemma FN_value_plus: "FN_value (FN_plus x y) = FN_value x + FN_value y"
  by (simp add: FN_plus_def FN_value_def setPrecision_def shiftedBy_diff Let_def add_divide_distrib)

lemma FN_value_minus: "FN_value (FN_minus x y) = FN_value x - FN_value y"
  by (simp add: FN_minus_def FN_value_def setPrecision_def shiftedBy_diff Let_def diff_divide_distrib)

lemma FN_value_times: "FN_value (FN_times x y) = FN_value x * FN_value y"
  by (simp add: FN_times_def FN_value_def setPrecision_def shiftedBy_diff shiftedBy_neg Let_def)

lemma precision_plus: "precision (FN_plus x y) = precision x"
  by (simp add: FN_plus_def Let_def)

text \<open>Rounding to the nearest double.\<close>

lemma roundHalfEven_bounds:
  "of_int (roundHalfEven r) \<le> r + 1 / 2" "r - 1 / 2 \<le> of_int (roundHalfEven r)"
  by (auto simp: roundHalfEven_def Let_def) linarith+

lemma roundHalfEven_of_int [simp]: "roundHalfEven (of_int n) = n"
  by (simp add: roundHalfEven_def)

lemma powi_diff_nat: "(2::rat) powi (int a - int b) = 2 ^ a / 2 ^ b"
  by (simp add: power_int_diff)

lemma ilog2_bounds:
  assumes "0 < x"
  shows "2 powi ilog2 x \<le> x \<and> x < 2 powi (ilog2 x + 1)"
proof -
  obtain a b where ab: "quotient_of x = (a, b)"
    by (cases "quotient_of x")
  then have b: "0 < b" and x: "x = of_int a / of_int b"
    by (simp_all add: quotient_of_denom_pos quotient_of_div)
  with assms have a: "0 < a"
    by (simp add: zero_less_divide_iff)
  define la where "la = floorlog 2 (nat a)"
  define lb where "lb = floorlog 2 (nat b)"
  have la: "2 ^ (la - 1) \<le> nat a" "nat a < 2 ^ la"
    using floorlog_bounds [of "nat a" 2] a by (simp_all add: la_def)
  have lb: "2 ^ (lb - 1) \<le> nat b" "nat b < 2 ^ lb"
    using floorlog_bounds [of "nat b" 2] b by (simp_all add: lb_def)
  have la1: "1 \<le> la" and lb1: "1 \<le> lb"
    using a b by (simp_all add: la_def lb_def floorlog_def)
  have "(of_nat (2 ^ (la - 1)) :: rat) \<le> of_nat (nat a)" "(of_nat (nat a) :: rat) < of_nat (2 ^ la)"
    using la by (simp_all only: of_nat_le_iff of_nat_less_iff)
  then have ra: "(2::rat) ^ (la - 1) \<le> of_int a" "(of_int a :: rat) < 2 ^ la"
    using a by simp_all
  have "(of_nat (2 ^ (lb - 1)) :: rat) \<le> of_nat (nat b)" "(of_nat (nat b) :: rat) < of_nat (2 ^ lb)"
    using lb by (simp_all only: of_nat_le_iff of_nat_less_iff)
  then have rb: "(2::rat) ^ (lb - 1) \<le> of_int b" "(of_int b :: rat) < 2 ^ lb"
    using b by simp_all
  have bpos: "(0::rat) < of_int b" and apos: "(0::rat) < of_int a"
    using a b by simp_all
  define k where "k = int la - int lb"
  have "k + 1 = int la - int (lb - 1)" "k - 1 = int (la - 1) - int lb"
    using la1 lb1 by (simp_all add: k_def)
  then have pw: "(2::rat) powi (k + 1) = 2 ^ la / 2 ^ (lb - 1)"
    "(2::rat) powi (k - 1) = 2 ^ (la - 1) / 2 ^ lb"
    by (simp_all only: powi_diff_nat)
  have "x < 2 ^ la / of_int b"
    unfolding x using ra(2) bpos by (simp add: divide_strict_right_mono)
  also have "\<dots> \<le> 2 ^ la / 2 ^ (lb - 1)"
    using rb(1) by (simp add: frac_le)
  finally have up: "x < 2 powi (k + 1)"
    by (simp only: pw)
  have "(2::rat) ^ (la - 1) / 2 ^ lb \<le> of_int a / 2 ^ lb"
    using ra(1) by (simp add: divide_right_mono)
  also have "\<dots> \<le> x"
    unfolding x using rb(2) apos bpos by (simp add: frac_le)
  finally have lo: "2 powi (k - 1) \<le> x"
    by (simp only: pw)
  have e: "ilog2 x = (if 2 powi k \<le> x then k else k - 1)"
    by (simp add: ilog2_def ab la_def lb_def k_def Let_def)
  show ?thesis
    using up lo by (auto simp: e)
qed


lemma double_of_pos_rounds:
  assumes "0 < x"
  obtains y where "double_of_pos x = (if 2 ^ 1024 \<le> y then Infinity else Number y)"
    and "y \<le> x + 2 powi (max (ilog2 x) (- 1022) - 52) / 2"
    and "x - 2 powi (max (ilog2 x) (- 1022) - 52) / 2 \<le> y"
    and "- 1022 \<le> ilog2 x \<Longrightarrow> 2 powi ilog2 x \<le> y"
proof -
  define e where "e = max (ilog2 x) (- 1022)"
  define u :: rat where "u = 2 powi (e - 52)"
  define m where "m = roundHalfEven (x / u)"
  define y where "y = of_int m * u"
  have u: "0 < u" by (simp add: u_def)
  have 1: "double_of_pos x = (if 2 ^ 1024 \<le> y then Infinity else Number y)"
    by (simp add: double_of_pos_def Let_def e_def u_def m_def y_def)
  have m: "of_int m \<le> x / u + 1 / 2" "x / u - 1 / 2 \<le> of_int m"
    using roundHalfEven_bounds [of "x / u"] by (simp_all add: m_def)
  have "of_int m * u \<le> (x / u + 1 / 2) * u"
    using m(1) u by (simp only: mult_le_cancel_right_pos)
  then have 2: "y \<le> x + u / 2"
    using u by (simp add: y_def algebra_simps)
  have "(x / u - 1 / 2) * u \<le> of_int m * u"
    using m(2) u by (simp only: mult_le_cancel_right_pos)
  then have 3: "x - u / 2 \<le> y"
    using u by (simp add: y_def algebra_simps)
  have 4: "2 powi ilog2 x \<le> y" if "- 1022 \<le> ilog2 x"
  proof -
    from that have e: "e = ilog2 x" by (simp add: e_def)
    have "(2::rat) powi ((e - 52) + 52) = 2 powi (e - 52) * 2 powi 52"
      by (rule power_int_add) simp
    then have pw: "(2::rat) powi ilog2 x = u * 2 ^ 52"
      by (simp add: u_def e)
    have "u * 2 ^ 52 \<le> x"
      using ilog2_bounds [OF assms] by (simp add: pw)
    then have "2 ^ 52 \<le> x / u"
      using u by (simp add: le_divide_eq mult.commute)
    with m(2) have "(2 ^ 52 - 1 / 2 :: rat) \<le> of_int m" by simp
    then have "(of_int (2 ^ 52 - 1) :: rat) < of_int m" by simp
    then have "2 ^ 52 - 1 < m" by (simp only: of_int_less_iff)
    then have "2 ^ 52 \<le> m" by simp
    then have "(of_int (2 ^ 52) :: rat) \<le> of_int m" by (simp only: of_int_le_iff)
    then have "(2 ^ 52 :: rat) * u \<le> of_int m * u"
      using u by simp
    then show ?thesis
      by (simp add: pw y_def mult.commute)
  qed
  show thesis
    using that [of y] 1 2 3 4 by (simp add: u_def e_def)
qed


lemma grid_gap:
  fixes k c :: int and x :: rat
  assumes "x = of_int k / 10 ^ p" and "p \<le> 15"
  shows "x < of_int c \<Longrightarrow> x \<le> of_int c - 1 / 10 ^ 15"
    and "of_int c < x \<Longrightarrow> of_int c + 1 / 10 ^ 15 \<le> x"
proof -
  have "(10::rat) ^ p \<le> 10 ^ 15"
    using assms(2) by (rule power_increasing) simp
  then have pw: "(1::rat) / 10 ^ 15 \<le> 1 / 10 ^ p"
    by (intro frac_le) simp_all
  {
    assume "x < of_int c"
    then have "(of_int k :: rat) < of_int (c * 10 ^ p)"
      by (simp add: assms(1) divide_less_eq)
    then have "k < c * 10 ^ p" by (simp only: of_int_less_iff)
    then have "k \<le> c * 10 ^ p - 1" by simp
    then have "(of_int k :: rat) \<le> of_int (c * 10 ^ p - 1)" by (simp only: of_int_le_iff)
    then have "(of_int k :: rat) / 10 ^ p \<le> of_int (c * 10 ^ p - 1) / 10 ^ p"
      by (rule divide_right_mono) simp
    then have "x \<le> of_int c - 1 / 10 ^ p"
      by (simp add: assms(1) diff_divide_distrib)
    with pw show "x \<le> of_int c - 1 / 10 ^ 15" by linarith
  }
  {
    assume "of_int c < x"
    then have "(of_int (c * 10 ^ p) :: rat) < of_int k"
      by (simp add: assms(1) less_divide_eq)
    then have "c * 10 ^ p < k" by (simp only: of_int_less_iff)
    then have "c * 10 ^ p + 1 \<le> k" by simp
    then have "(of_int (c * 10 ^ p + 1) :: rat) \<le> of_int k" by (simp only: of_int_le_iff)
    then have "(of_int (c * 10 ^ p + 1) :: rat) / 10 ^ p \<le> of_int k / 10 ^ p"
      by (rule divide_right_mono) simp
    then have "of_int c + 1 / 10 ^ p \<le> x"
      by (simp add: assms(1) add_divide_distrib)
    with pw show "of_int c + 1 / 10 ^ 15 \<le> x" by linarith
  }
qed

lemma ilog2_less:
  assumes "0 < x" and "x < 2 powi n"
  shows "ilog2 x < n"
proof (rule ccontr)
  assume "\<not> ilog2 x < n"
  then have "(2::rat) powi n \<le> 2 powi ilog2 x"
    by (simp add: power_int_increasing)
  with ilog2_bounds [OF assms(1)] assms(2) show False by simp
qed

lemma ilog2_ge:
  assumes "0 < x" and "2 powi n \<le> x"
  shows "n \<le> ilog2 x"
proof (rule ccontr)
  assume "\<not> n \<le> ilog2 x"
  then have "ilog2 x + 1 \<le> n" by simp
  then have "(2::rat) powi (ilog2 x + 1) \<le> 2 powi n"
    by (simp add: power_int_increasing)
  with ilog2_bounds [OF assms(1)] assms(2) show False by simp
qed

lemma double_of_pos_nonneg:
  assumes "0 < x" and "double_of_pos x = Number y"
  shows "0 \<le> y"
proof -
  have "0 \<le> roundHalfEven r" if "0 \<le> r" for r
  proof -
    have "(- 1 / 2 :: rat) \<le> of_int (roundHalfEven r)"
      using roundHalfEven_bounds(2) [of r] that by simp
    then have "(of_int (- 1) :: rat) < of_int (roundHalfEven r)" by simp
    then have "- 1 < roundHalfEven r" by (simp only: of_int_less_iff)
    then show ?thesis by simp
  qed
  then have "0 \<le> roundHalfEven (x / 2 powi (max (ilog2 x) (- 1022) - 52))"
    using assms(1) by simp
  with assms(2) show ?thesis
    by (auto simp: double_of_pos_def Let_def split: if_splits)
qed

lemma nearestDouble_nonpos:
  assumes "x \<le> 0"
  shows "number_less (nearestDouble x) 1" and "number_le (nearestDouble x) 2"
proof -
  have "number_less (nearestDouble x) 1 \<and> number_le (nearestDouble x) 2"
  proof (cases "x = 0")
    case True
    then show ?thesis by (simp add: nearestDouble_def)
  next
    case False
    with assms have neg: "0 < - x" by simp
    show ?thesis
    proof (cases "double_of_pos (- x)")
      case (Number y)
      with double_of_pos_nonneg [OF neg] have "0 \<le> y" by simp
      with Number False neg show ?thesis by (simp add: nearestDouble_def)
    qed (use False neg in \<open>simp_all add: nearestDouble_def\<close>)
  qed
  then show "number_less (nearestDouble x) 1" and "number_le (nearestDouble x) 2" by simp_all
qed

lemma nearestDouble_less_1:
  fixes k :: int
  assumes "x = of_int k / 10 ^ p" and "p \<le> 15"
  shows "number_less (nearestDouble x) 1 \<longleftrightarrow> x < 1"
proof -
  consider "x \<le> 0" | "0 < x" "x < 1" | "1 \<le> x" by linarith
  then show ?thesis
  proof cases
    case 1
    with nearestDouble_nonpos(1) [OF 1] show ?thesis by simp
  next
    case 2
    have e: "ilog2 x < 0"
      using ilog2_less [OF 2(1), of 0] 2(2) by simp
    then have "max (ilog2 x) (- 1022) - 52 \<le> - 53" by simp
    then have "(2::rat) powi (max (ilog2 x) (- 1022) - 52) \<le> 2 powi (- 53)"
      by (simp only: power_int_increasing one_le_numeral)
    then have u: "(2::rat) powi (max (ilog2 x) (- 1022) - 52) \<le> 1 / 2 ^ 53"
      by (simp add: power_int_minus divide_simps)
    have g: "x \<le> 1 - 1 / 10 ^ 15"
      using grid_gap(1) [OF assms, of 1] 2(2) by simp
    obtain y where y: "double_of_pos x = (if 2 ^ 1024 \<le> y then Infinity else Number y)"
      "y \<le> x + 2 powi (max (ilog2 x) (- 1022) - 52) / 2"
      using double_of_pos_rounds [OF 2(1)] by blast
    from y(2) u g have "y < 1" by simp
    then have "\<not> 2 ^ 1024 \<le> y" by simp
    with y(1) \<open>y < 1\<close> 2 show ?thesis by (simp add: nearestDouble_def)
  next
    case 3
    then have pos: "0 < x" by simp
    have e: "0 \<le> ilog2 x"
      using ilog2_ge [OF pos, of 0] 3 by simp
    obtain y where y: "double_of_pos x = (if 2 ^ 1024 \<le> y then Infinity else Number y)"
      "- 1022 \<le> ilog2 x \<Longrightarrow> 2 powi ilog2 x \<le> y"
      using double_of_pos_rounds [OF pos] by blast
    have "(2::rat) powi 0 \<le> 2 powi ilog2 x"
      using e by (simp only: power_int_increasing one_le_numeral)
    then have "(1::rat) \<le> 2 powi ilog2 x" by (simp only: power_int_0_right)
    moreover have "2 powi ilog2 x \<le> y" using y(2) e by simp
    ultimately have "1 \<le> y" by linarith
    with y(1) 3 pos show ?thesis by (simp add: nearestDouble_def)
  qed
qed








text \<open>
  The quotient of two amounts is their exact ratio, rounded down to the last decimal of
  the dividend's precision.
\<close>

lemma FN_div_Finite:
  assumes "inner actualFee \<noteq> 0"
  shows "FN_div feeBudget actualFee
           = Finite \<lparr>inner = of_int \<lfloor>FN_value feeBudget / FN_value actualFee
                                         * 10 ^ precision feeBudget\<rfloor>,
                      precision = precision feeBudget\<rparr>"
proof -
  define p where "p = precision feeBudget"
  define t where "t = inner (setPrecision actualFee p)"
  have t: "t = inner actualFee * 10 ^ p / 10 ^ precision actualFee"
    by (simp add: t_def setPrecision_def shiftedBy_diff)
  with assms have t0: "t \<noteq> 0" by simp
  have "inner feeBudget * 10 ^ p / t = FN_value feeBudget / FN_value actualFee * 10 ^ p"
    using assms by (simp add: t FN_value_def p_def)
  then show ?thesis
    using t0 by (simp add: FN_div_def Let_def p_def [symmetric] t_def [symmetric] shiftedBy_pos)
qed

lemma toNumber_FN_div:
  assumes "inner actualFee \<noteq> 0"
  shows "toNumber (FN_div feeBudget actualFee)
           = nearestDouble (of_int \<lfloor>FN_value feeBudget / FN_value actualFee
                                       * 10 ^ precision feeBudget\<rfloor>
                            / 10 ^ precision feeBudget)"
  by (simp only: FN_div_Finite [OF assms] toNumber.simps FN.simps shiftedBy_neg)

lemma floor_scaled_less_1:
  fixes r :: rat
  shows "of_int \<lfloor>r * 10 ^ p\<rfloor> / (10 ^ p :: rat) < 1 \<longleftrightarrow> r < 1"
proof -
  have "of_int \<lfloor>r * 10 ^ p\<rfloor> / (10 ^ p :: rat) < 1 \<longleftrightarrow> \<lfloor>r * 10 ^ p\<rfloor> < 10 ^ p"
    by (simp add: divide_less_eq)
  also have "\<dots> \<longleftrightarrow> r * 10 ^ p < 10 ^ p"
    using floor_less_iff [of "r * 10 ^ p" "10 ^ p"] by simp
  also have "\<dots> \<longleftrightarrow> r < 1"
    by simp
  finally show ?thesis .
qed


text \<open>
  With at most 15 decimals the conversion of the quotient to a JavaScript number does not
  move the lower threshold: the number that \<^verbatim>\<open>checkTransfer\<close> compares is below 1 exactly
  when the budget is below the actual fee.
\<close>

lemma fee_factor_less_1_iff:
  assumes "0 < inner actualFee" and "precision feeBudget \<le> 15"
  shows "number_less (toNumber (FN_div feeBudget actualFee)) 1
           \<longleftrightarrow> FN_value feeBudget < FN_value actualFee"
proof -
  from assms(1) have pos: "0 < FN_value actualFee"
    by (simp add: FN_value_def)
  from assms(1) have "inner actualFee \<noteq> 0" by simp
  then have "toNumber (FN_div feeBudget actualFee)
      = nearestDouble (of_int \<lfloor>FN_value feeBudget / FN_value actualFee
                                  * 10 ^ precision feeBudget\<rfloor>
                       / 10 ^ precision feeBudget)"
    by (rule toNumber_FN_div)
  then have "number_less (toNumber (FN_div feeBudget actualFee)) 1
      \<longleftrightarrow> number_less (nearestDouble (of_int \<lfloor>FN_value feeBudget / FN_value actualFee
                                  * 10 ^ precision feeBudget\<rfloor>
                       / 10 ^ precision feeBudget)) 1"
    by simp
  also have "\<dots> \<longleftrightarrow> of_int \<lfloor>FN_value feeBudget / FN_value actualFee * 10 ^ precision feeBudget\<rfloor>
            / (10 ^ precision feeBudget :: rat) < 1"
    by (rule nearestDouble_less_1 [OF refl assms(2)])
  also have "\<dots> \<longleftrightarrow> FN_value feeBudget / FN_value actualFee < 1"
    by (rule floor_scaled_less_1)
  also have "\<dots> \<longleftrightarrow> FN_value feeBudget < FN_value actualFee"
    using pos by (simp add: divide_less_eq)
  finally show ?thesis .
qed

section \<open>The fee verdict\<close>






section \<open>The existential-deposit check\<close>

text \<open>
  One run of \<^verbatim>\<open>checkTransfer\<close> submits no transfer, one or two; it fails when the balance
  observed after one of them is zero.
\<close>

lemma checkTransfer_shape:
  "(snd (checkTransfer env s) = s \<and> result (fst (checkTransfer env s)) = FAIL)
 \<or> (\<exists>a. snd (checkTransfer env s) = s @ [a]
        \<and> (\<forall>status newBalance. observe env (s @ [a]) = Inr (status, newBalance)
              \<and> isZero newBalance \<longrightarrow> result (fst (checkTransfer env s)) = FAIL))
 \<or> (\<exists>a b. snd (checkTransfer env s) = s @ [a, b]
        \<and> (\<forall>status newBalance. observe env (s @ [a]) = Inr (status, newBalance)
              \<longrightarrow> \<not> isZero newBalance)
        \<and> (\<forall>status newBalance. observe env (s @ [a, b]) = Inr (status, newBalance)
              \<and> isZero newBalance \<longrightarrow> result (fst (checkTransfer env s)) = FAIL))"
  by (auto simp: checkTransfer_def checkExistentialDeposit_def caught_def sendTx_def Let_def
      split: sum.splits prod.splits if_splits option.splits)

lemma zero_balance_fails:
  assumes "length submitted < n" and "n \<le> length (snd (checkTransfer env submitted))"
    and "observe env (take n (snd (checkTransfer env submitted))) = Inr (status, newBalance)"
    and "isZero newBalance"
  shows "result (fst (checkTransfer env submitted)) = FAIL"
proof -
  consider (none) "snd (checkTransfer env submitted) = submitted"
      "result (fst (checkTransfer env submitted)) = FAIL"
    | (one) a where "snd (checkTransfer env submitted) = submitted @ [a]"
      "\<forall>status newBalance. observe env (submitted @ [a]) = Inr (status, newBalance)
          \<and> isZero newBalance \<longrightarrow> result (fst (checkTransfer env submitted)) = FAIL"
    | (two) a b where "snd (checkTransfer env submitted) = submitted @ [a, b]"
      "\<forall>status newBalance. observe env (submitted @ [a]) = Inr (status, newBalance)
          \<longrightarrow> \<not> isZero newBalance"
      "\<forall>status newBalance. observe env (submitted @ [a, b]) = Inr (status, newBalance)
          \<and> isZero newBalance \<longrightarrow> result (fst (checkTransfer env submitted)) = FAIL"
    using checkTransfer_shape [of env submitted] by blast
  then show ?thesis
  proof cases
    case none
    then show ?thesis by simp
  next
    case one
    with assms have "n = Suc (length submitted)" by simp
    with one assms(3,4) show ?thesis by simp
  next
    case two
    with assms have "n = Suc (length submitted) \<or> n = Suc (Suc (length submitted))" by auto
    with two assms(3,4) show ?thesis by auto
  qed
qed

lemma follow_up_submitted:
  assumes "minInput env = Inr expectedMinAmount"
    and "destED env = Inr expectedEd"
    and "crossChainFee env = Inr feeBudget"
    and "sendTx env submitted (FN_times expectedMinAmount (FN_new 10 18)) FeeEstimate
           = (Inr actualFee, submitted1)"
    and "\<not> number_less (toNumber (FN_div feeBudget actualFee)) 1"
    and "origin_createTx env amountToSend = None"
    and "amountToSend = FN_plus (FN_plus actualFee expectedEd) (fromInner 1 (precision actualFee))"
  shows "snd (checkTransfer env submitted) = submitted1 @ [amountToSend]"
proof -
  have "snd (sendTx env submitted1 amountToSend ExistentialDeposit) = submitted1 @ [amountToSend]"
    using assms(6) by (simp add: sendTx_def Let_def split: sum.splits prod.splits)
  then show ?thesis
    using assms(1-5,7)
    by (cases "sendTx env submitted1 amountToSend ExistentialDeposit")
      (auto simp: checkTransfer_def checkExistentialDeposit_def Let_def split: sum.splits)
qed

text \<open>
  Claim C6. When the first transfer has arrived and the fee check has not failed,
  \<^verbatim>\<open>checkTransfer\<close> submits one follow-up transfer, of exactly the actual fee plus the
  configured minimum balance of the destination plus one smallest unit (at the precision
  of the actual fee). Whenever the free balance observed at the destination after a
  transfer of the check, the first or the follow-up, is zero, the verdict is FAIL.
\<close>

theorem existential_deposit_check:
  assumes "minInput env = Inr expectedMinAmount"
    and "destED env = Inr expectedEd"
    and "crossChainFee env = Inr feeBudget"
    and "sendTx env submitted (FN_times expectedMinAmount (FN_new 10 18)) FeeEstimate
           = (Inr actualFee, submitted1)"
    and "\<not> number_less (toNumber (FN_div feeBudget actualFee)) 1"
    and "origin_createTx env amountToSend = None"
    and "amountToSend = FN_plus (FN_plus actualFee expectedEd) (fromInner 1 (precision actualFee))"
  shows "snd (checkTransfer env submitted) = submitted1 @ [amountToSend]
       \<and> precision amountToSend = precision actualFee
       \<and> FN_value amountToSend
           = FN_value actualFee + FN_value expectedEd + 1 / 10 ^ precision actualFee
       \<and> (\<forall>n status newBalance.
              length submitted < n \<and> n \<le> length (snd (checkTransfer env submitted))
              \<and> observe env (take n (snd (checkTransfer env submitted)))
                  = Inr (status, newBalance)
              \<and> isZero newBalance
            \<longrightarrow> result (fst (checkTransfer env submitted)) = FAIL)"
proof -
  have "snd (checkTransfer env submitted) = submitted1 @ [amountToSend]"
    using assms by (rule follow_up_submitted)
  moreover have "precision amountToSend = precision actualFee"
    by (simp add: assms(7) precision_plus)
  moreover have "FN_value amountToSend
      = FN_value actualFee + FN_value expectedEd + 1 / 10 ^ precision actualFee"
    by (simp add: assms(7) FN_value_plus FN_value_fromInner)
  moreover have "\<forall>n status newBalance.
              length submitted < n \<and> n \<le> length (snd (checkTransfer env submitted))
              \<and> observe env (take n (snd (checkTransfer env submitted)))
                  = Inr (status, newBalance)
              \<and> isZero newBalance
            \<longrightarrow> result (fst (checkTransfer env submitted)) = FAIL"
    using zero_balance_fails [of submitted _ env] by blast
  ultimately show ?thesis by blast
qed

theorem existential_deposit_check_witness:
  "snd (checkTransfer (example_env 40 0) []) = [fromInner 1000 12, fromInner 51 12]
 \<and> observe (example_env 40 0) [fromInner 1000 12, fromInner 51 12]
     = Inr (TIMEOUT, fromInner 0 12)
 \<and> isZero (fromInner 0 12)
 \<and> result (fst (checkTransfer (example_env 40 0) [])) = FAIL"
proof -
  have lookups: "minInput (example_env 40 0) = Inr (fromInner 100 12)"
    "destED (example_env 40 0) = Inr (fromInner 10 12)"
    "crossChainFee (example_env 40 0) = Inr (fromInner 100 12)"
    by (simp_all add: example_env_def)
  have first:
    "sendTx (example_env 40 0) [] (FN_times (fromInner 100 12) (FN_new 10 18)) FeeEstimate
      = (Inr (fromInner 40 12), [fromInner 1000 12])"
    by code_simp
  have factor: "\<not> number_less (toNumber (FN_div (fromInner 100 12) (fromInner 40 12))) 1"
    using fee_factor_less_1_iff [of "fromInner 40 12" "fromInner 100 12"]
    by (simp add: FN_value_def fromInner_def)
  have tx: "origin_createTx (example_env 40 0) (fromInner 51 12) = None"
    by (simp add: example_env_def)
  have amount: "fromInner 51 12 = FN_plus (FN_plus (fromInner 40 12) (fromInner 10 12))
      (fromInner 1 (precision (fromInner 40 12)))"
    by code_simp
  have zero: "observe (example_env 40 0) [fromInner 1000 12, fromInner 51 12]
      = Inr (TIMEOUT, fromInner 0 12)" "isZero (fromInner 0 12)"
    by (simp_all add: example_env_def isZero_def fromInner_def)
  note inst = existential_deposit_check [OF lookups first factor tx amount]
  from inst have sub: "snd (checkTransfer (example_env 40 0) []) = [fromInner 1000 12, fromInner 51 12]"
    by simp
  from inst have "length ([]::FN list) < 2 \<and> 2 \<le> length (snd (checkTransfer (example_env 40 0) []))
      \<and> observe (example_env 40 0) (take 2 (snd (checkTransfer (example_env 40 0) [])))
          = Inr (TIMEOUT, fromInner 0 12)
      \<and> isZero (fromInner 0 12)
    \<longrightarrow> result (fst (checkTransfer (example_env 40 0) [])) = FAIL"
    by blast
  with sub zero have "result (fst (checkTransfer (example_env 40 0) [])) = FAIL"
    by simp
  with sub zero show ?thesis by simp
qed

section \<open>Properties of the retry orchestrator\<close>

lemma retry_OK_now:
  "result (check (attempts st)) = OK \<Longrightarrow>
   retryCheckTransfer check maxAttempts attemptCount st
     = (check (attempts st), st\<lparr>attempts := Suc (attempts st)\<rparr>)"
  by (subst retryCheckTransfer.simps) (simp add: Let_def)

lemma retry_again:
  "result (check (attempts st)) \<noteq> OK \<Longrightarrow> attemptCount < maxAttempts \<Longrightarrow>
   retryCheckTransfer check maxAttempts attemptCount st
     = retryCheckTransfer check maxAttempts (attemptCount + 1)
         (st\<lparr>attempts := Suc (attempts st),
             stdout := stdout st @ [AttemptFailed attemptCount maxAttempts]\<rparr>)"
  by (subst retryCheckTransfer.simps) (simp add: Let_def)

lemma retry_give_up:
  "result (check (attempts st)) \<noteq> OK \<Longrightarrow> \<not> attemptCount < maxAttempts \<Longrightarrow>
   retryCheckTransfer check maxAttempts attemptCount st
     = (check (attempts st),
        st\<lparr>attempts := Suc (attempts st),
            stdout := stdout st @ [AttemptFailed attemptCount maxAttempts, GivingUp]\<rparr>)"
  by (subst retryCheckTransfer.simps) (simp add: Let_def)

text \<open>No run of the next \<open>n + 1\<close> is OK: all of them are made, and the last one is returned.\<close>

lemma retry_all_not_OK:
  assumes "nat (maxAttempts - attemptCount) = n" and "attemptCount \<le> maxAttempts"
    and "\<forall>j \<le> n. result (check (attempts st + j)) \<noteq> OK"
  shows "retryCheckTransfer check maxAttempts attemptCount st =
           (check (attempts st + n),
            \<lparr>attempts = attempts st + Suc n,
             stdout = stdout st @ map (\<lambda>i. AttemptFailed i maxAttempts) [attemptCount..maxAttempts]
                        @ [GivingUp]\<rparr>)"
  using assms
proof (induction n arbitrary: attemptCount st)
  case 0
  then have eq: "attemptCount = maxAttempts" by simp
  from 0 have "result (check (attempts st)) \<noteq> OK" by simp
  then show ?case
    using eq by (simp add: retry_give_up)
next
  case (Suc n)
  then have less: "attemptCount < maxAttempts" by simp
  from Suc.prems(3) have notOK: "result (check (attempts st)) \<noteq> OK"
    by (metis add.right_neutral le0)
  let ?st2 = "st\<lparr>attempts := Suc (attempts st),
                  stdout := stdout st @ [AttemptFailed attemptCount maxAttempts]\<rparr>"
  have a: "nat (maxAttempts - (attemptCount + 1)) = n"
    using Suc.prems(1) by simp
  have b: "attemptCount + 1 \<le> maxAttempts"
    using less by simp
  have c: "\<forall>j \<le> n. result (check (attempts ?st2 + j)) \<noteq> OK"
  proof (intro allI impI)
    fix j assume "j \<le> n"
    then have "Suc j \<le> Suc n" by simp
    with Suc.prems(3) have "result (check (attempts st + Suc j)) \<noteq> OK" by blast
    then show "result (check (attempts ?st2 + j)) \<noteq> OK" by simp
  qed
  have d: "[attemptCount..maxAttempts] = attemptCount # [attemptCount + 1..maxAttempts]"
    using less by (simp add: upto_rec1)
  have "retryCheckTransfer check maxAttempts attemptCount st
      = retryCheckTransfer check maxAttempts (attemptCount + 1) ?st2"
    using notOK less by (rule retry_again)
  then show ?case
    using Suc.IH [where attemptCount = "attemptCount + 1" and st = ?st2, OF a b c] d by simp
qed

text \<open>Run \<open>k\<close> of the next ones is the first that is OK: it is the last one made.\<close>

lemma retry_first_OK:
  assumes "result (check (attempts st + k)) = OK"
    and "\<forall>j < k. result (check (attempts st + j)) \<noteq> OK"
    and "int k \<le> maxAttempts - attemptCount"
  shows "retryCheckTransfer check maxAttempts attemptCount st =
           (check (attempts st + k),
            \<lparr>attempts = attempts st + Suc k,
             stdout = stdout st
               @ map (\<lambda>i. AttemptFailed i maxAttempts) [attemptCount..attemptCount + int k - 1]\<rparr>)"
  using assms
proof (induction k arbitrary: attemptCount st)
  case 0
  then show ?case by (simp add: retry_OK_now)
next
  case (Suc k)
  then have less: "attemptCount < maxAttempts" by simp
  from Suc.prems(2) have notOK: "result (check (attempts st)) \<noteq> OK"
    by (metis add.right_neutral zero_less_Suc)
  let ?st2 = "st\<lparr>attempts := Suc (attempts st),
                  stdout := stdout st @ [AttemptFailed attemptCount maxAttempts]\<rparr>"
  have a: "result (check (attempts ?st2 + k)) = OK"
    using Suc.prems(1) by simp
  have b: "\<forall>j < k. result (check (attempts ?st2 + j)) \<noteq> OK"
  proof (intro allI impI)
    fix j assume "j < k"
    then have "Suc j < Suc k" by simp
    with Suc.prems(2) have "result (check (attempts st + Suc j)) \<noteq> OK" by blast
    then show "result (check (attempts ?st2 + j)) \<noteq> OK" by simp
  qed
  have c: "int k \<le> maxAttempts - (attemptCount + 1)"
    using Suc.prems(3) by simp
  have d: "[attemptCount..attemptCount + int (Suc k) - 1]
      = attemptCount # [attemptCount + 1..attemptCount + 1 + int k - 1]"
    by (simp add: upto_rec1)
  have "retryCheckTransfer check maxAttempts attemptCount st
      = retryCheckTransfer check maxAttempts (attemptCount + 1) ?st2"
    using notOK less by (rule retry_again)
  then show ?case
    using Suc.IH [where attemptCount = "attemptCount + 1" and st = ?st2, OF a b c] d by simp
qed

text \<open>
  Claim C4, as stated: the first attempt whose verdict is not FAIL ends the retrying and
  its result is returned. It fails for a check that warns on its first run and times out
  afterwards: the warning does not end the retrying, three attempts are made and the
  result returned is the failure of the third.
\<close>

theorem retry_first_non_FAIL_counterexample:
  "result (warn_then_timeout 0) \<noteq> FAIL
 \<and> fst (retryCheckTransfer warn_then_timeout 3 1 initial_state) \<noteq> warn_then_timeout 0
 \<and> result (fst (retryCheckTransfer warn_then_timeout 3 1 initial_state)) = FAIL
 \<and> attempts (snd (retryCheckTransfer warn_then_timeout 3 1 initial_state)) = 3"
  by code_simp

text \<open>
  Claim C4, amended: started with attempt 1 of \<open>N\<close>, the orchestrator makes at most \<open>N\<close>
  attempts and returns the first result whose verdict is OK, which ends the retrying; a
  WARN is retried like a FAIL. When none of the \<open>N\<close> attempts is OK it returns the result
  of the last one.
\<close>

theorem retry_first_OK_or_last:
  assumes "1 \<le> N"
  shows "(\<forall>k. int k < N \<and> result (check (attempts st + k)) = OK
              \<and> (\<forall>j < k. result (check (attempts st + j)) \<noteq> OK)
            \<longrightarrow> fst (retryCheckTransfer check N 1 st) = check (attempts st + k)
              \<and> attempts (snd (retryCheckTransfer check N 1 st)) = attempts st + Suc k)
       \<and> ((\<forall>j. int j < N \<longrightarrow> result (check (attempts st + j)) \<noteq> OK)
            \<longrightarrow> fst (retryCheckTransfer check N 1 st) = check (attempts st + (nat N - 1))
              \<and> attempts (snd (retryCheckTransfer check N 1 st)) = attempts st + nat N)"
proof (intro conjI allI impI)
  fix k
  assume k: "int k < N \<and> result (check (attempts st + k)) = OK
     \<and> (\<forall>j < k. result (check (attempts st + j)) \<noteq> OK)"
  then have "int k \<le> N - 1" by simp
  with k have "retryCheckTransfer check N 1 st =
           (check (attempts st + k),
            \<lparr>attempts = attempts st + Suc k,
             stdout = stdout st @ map (\<lambda>i. AttemptFailed i N) [1..1 + int k - 1]\<rparr>)"
    by (intro retry_first_OK) simp_all
  then show "fst (retryCheckTransfer check N 1 st) = check (attempts st + k)"
    and "attempts (snd (retryCheckTransfer check N 1 st)) = attempts st + Suc k"
    by simp_all
next
  assume none: "\<forall>j. int j < N \<longrightarrow> result (check (attempts st + j)) \<noteq> OK"
  have n: "nat (N - 1) = nat N - 1" by simp
  have "\<forall>j \<le> nat N - 1. result (check (attempts st + j)) \<noteq> OK"
    using none assms by (auto simp: nat_le_iff)
  with assms have "retryCheckTransfer check N 1 st =
           (check (attempts st + (nat N - 1)),
            \<lparr>attempts = attempts st + Suc (nat N - 1),
             stdout = stdout st @ map (\<lambda>i. AttemptFailed i N) [1..N] @ [GivingUp]\<rparr>)"
    by (intro retry_all_not_OK) (simp_all add: n)
  with assms show "fst (retryCheckTransfer check N 1 st) = check (attempts st + (nat N - 1))"
    and "attempts (snd (retryCheckTransfer check N 1 st)) = attempts st + nat N"
    by simp_all
qed

theorem retry_first_OK_or_last_witness:
  "fst (retryCheckTransfer timeout_then_OK 3 1 initial_state) = timeout_then_OK 1
 \<and> attempts (snd (retryCheckTransfer timeout_then_OK 3 1 initial_state)) = 2
 \<and> fst (retryCheckTransfer warn_then_timeout 3 1 initial_state) = warn_then_timeout 2
 \<and> attempts (snd (retryCheckTransfer warn_then_timeout 3 1 initial_state)) = 3"
proof -
  have "int 1 < 3 \<and> result (timeout_then_OK (attempts initial_state + 1)) = OK
      \<and> (\<forall>j < 1. result (timeout_then_OK (attempts initial_state + j)) \<noteq> OK)"
    by (simp add: timeout_then_OK_def initial_state_def caught_def)
  with retry_first_OK_or_last [of 3 timeout_then_OK initial_state]
  have "fst (retryCheckTransfer timeout_then_OK 3 1 initial_state)
          = timeout_then_OK (attempts initial_state + 1)
      \<and> attempts (snd (retryCheckTransfer timeout_then_OK 3 1 initial_state))
          = attempts initial_state + Suc 1"
    by (meson one_le_numeral)
  then have ok: "fst (retryCheckTransfer timeout_then_OK 3 1 initial_state) = timeout_then_OK 1
      \<and> attempts (snd (retryCheckTransfer timeout_then_OK 3 1 initial_state)) = 2"
    by (simp add: initial_state_def)
  have "\<forall>j. int j < 3 \<longrightarrow> result (warn_then_timeout (attempts initial_state + j)) \<noteq> OK"
    by (simp add: warn_then_timeout_def caught_def)
  with retry_first_OK_or_last [of 3 warn_then_timeout initial_state]
  have "fst (retryCheckTransfer warn_then_timeout 3 1 initial_state)
          = warn_then_timeout (attempts initial_state + (nat 3 - 1))
      \<and> attempts (snd (retryCheckTransfer warn_then_timeout 3 1 initial_state))
          = attempts initial_state + nat 3"
    by (meson one_le_numeral)
  moreover have "nat 3 - 1 = (2::nat)"
    by simp
  ultimately have "fst (retryCheckTransfer warn_then_timeout 3 1 initial_state) = warn_then_timeout 2
      \<and> attempts (snd (retryCheckTransfer warn_then_timeout 3 1 initial_state)) = 3"
    by (simp only: initial_state_def harness_state.simps add_0 nat_numeral)
  with ok show ?thesis by simp
qed

text \<open>
  Claim C5. When every one of the \<open>N\<close> attempts fails, exactly \<open>N\<close> attempts are made, the
  result returned is the one of attempt \<open>N\<close>, and the output names the failed attempts
  1 to \<open>N\<close> before giving up. The harness runs every test case with \<open>N = 3\<close>.
\<close>

theorem retry_exhaustion:
  assumes "1 \<le> N"
    and "\<forall>j. int j < N \<longrightarrow> result (check (attempts st + j)) = FAIL"
  shows "attempts (snd (retryCheckTransfer check N 1 st)) = attempts st + nat N
       \<and> fst (retryCheckTransfer check N 1 st) = check (attempts st + (nat N - 1))
       \<and> stdout (snd (retryCheckTransfer check N 1 st))
           = stdout st @ map (\<lambda>i. AttemptFailed i N) [1..N] @ [GivingUp]"
proof -
  have n: "nat (N - 1) = nat N - 1" by simp
  have "\<forall>j \<le> nat N - 1. result (check (attempts st + j)) \<noteq> OK"
  proof (intro allI impI)
    fix j assume "j \<le> nat N - 1"
    with assms(1) have "int j < N" by (auto simp: nat_le_iff)
    with assms(2) have "result (check (attempts st + j)) = FAIL" by blast
    then show "result (check (attempts st + j)) \<noteq> OK" by simp
  qed
  with assms(1) have "retryCheckTransfer check N 1 st =
           (check (attempts st + (nat N - 1)),
            \<lparr>attempts = attempts st + Suc (nat N - 1),
             stdout = stdout st @ map (\<lambda>i. AttemptFailed i N) [1..N] @ [GivingUp]\<rparr>)"
    by (intro retry_all_not_OK) (simp_all add: n)
  with assms(1) show ?thesis by simp
qed

theorem retry_exhaustion_witness:
  "attempts (snd (runTestCase always_timeout initial_state)) = 3
 \<and> fst (runTestCase always_timeout initial_state) = always_timeout 2
 \<and> always_timeout 2 \<noteq> always_timeout 0
 \<and> stdout (snd (runTestCase always_timeout initial_state))
     = [AttemptFailed 1 3, AttemptFailed 2 3, AttemptFailed 3 3, GivingUp]"
proof -
  have "\<forall>j. int j < 3 \<longrightarrow> result (always_timeout (attempts initial_state + j)) = FAIL"
    by (simp add: always_timeout_def caught_def)
  with retry_exhaustion [of 3 always_timeout initial_state]
  have "attempts (snd (retryCheckTransfer always_timeout 3 1 initial_state))
          = attempts initial_state + nat 3
      \<and> fst (retryCheckTransfer always_timeout 3 1 initial_state)
          = always_timeout (attempts initial_state + (nat 3 - 1))
      \<and> stdout (snd (retryCheckTransfer always_timeout 3 1 initial_state))
          = stdout initial_state @ map (\<lambda>i. AttemptFailed i 3) [1..3] @ [GivingUp]"
    by (meson one_le_numeral)
  moreover have "nat 3 - 1 = (2::nat)" "attempts initial_state = 0" "stdout initial_state = []"
    by (simp_all add: initial_state_def)
  moreover have "[1..3::int] = [1, 2, 3]"
    by (simp add: upto_rec1)
  moreover have "always_timeout 2 \<noteq> always_timeout 0"
    by (simp add: always_timeout_def caught_def fromInner_def)
  ultimately show ?thesis
    by (simp add: runTestCase_def numeral_2_eq_2)
qed

section \<open>Balance snapshots of non-native tokens\<close>

lemma FN_value_zero: "FN_value (FN_new 0 18) = 0"
  by (simp add: FN_value_new)

lemma interlay_snapshot:
  assumes "interlay_subscribeBalance ba token address = Inr obs" and "obs s = Inr b"
  shows "\<exists>tokenId tokenMeta.
           getSupportedTokens (ba_chain ba) token = Some tokenId
         \<and> getToken ba token = Inr tokenMeta
         \<and> free b = fromInner (case query_tokens_accounts s address tokenId of
                                 None \<Rightarrow> 0 | Some balance \<Rightarrow> of_nat balance)
                      (decimals tokenMeta)
         \<and> available b = free b \<and> locked b = FN_new 0 18 \<and> reserved b = FN_new 0 18"
proof -
  from assms(1) obtain tokenId where tokenId: "getSupportedTokens (ba_chain ba) token = Some tokenId"
    by (cases "getSupportedTokens (ba_chain ba) token") (simp_all add: interlay_subscribeBalance_def)
  with assms(2) obtain tokenMeta where tokenMeta: "getToken ba token = Inr tokenMeta"
    using assms(1) by (cases "getToken ba token") (auto simp: interlay_subscribeBalance_def)
  from assms tokenId tokenMeta
  have "b = \<lparr>free = fromInner (case query_tokens_accounts s address tokenId of
                                 None \<Rightarrow> 0 | Some balance \<Rightarrow> of_nat balance)
                      (decimals tokenMeta),
             locked = FN_new 0 18, reserved = FN_new 0 18,
             available = fromInner (case query_tokens_accounts s address tokenId of
                                 None \<Rightarrow> 0 | Some balance \<Rightarrow> of_nat balance)
                      (decimals tokenMeta)\<rparr>"
    by (auto simp: interlay_subscribeBalance_def Let_def)
  with tokenId tokenMeta show ?thesis by simp
qed

lemma astar_snapshot:
  assumes "token \<noteq> nativeToken ba"
    and "astar_subscribeBalance ba token address = Inr obs" and "obs s = Inr b"
  shows "\<exists>tokenId tokenMeta.
           astar_SUPPORTED_TOKENS token = Some tokenId
         \<and> getToken ba token = Inr tokenMeta
         \<and> free b = fromInner (case query_assets_account s tokenId address of
                                 None \<Rightarrow> 0 | Some balance \<Rightarrow> of_nat balance)
                      (decimals tokenMeta)
         \<and> available b = free b \<and> locked b = FN_new 0 18 \<and> reserved b = FN_new 0 18"
proof -
  from assms(1,2) obtain tokenId where tokenId: "astar_SUPPORTED_TOKENS token = Some tokenId"
    by (cases "astar_SUPPORTED_TOKENS token") (simp_all add: astar_subscribeBalance_def)
  with assms obtain tokenMeta where tokenMeta: "getToken ba token = Inr tokenMeta"
    by (cases "getToken ba token") (auto simp: astar_subscribeBalance_def)
  from assms tokenId tokenMeta
  have "b = \<lparr>free = fromInner (case query_assets_account s tokenId address of
                                 None \<Rightarrow> 0 | Some balance \<Rightarrow> of_nat balance)
                      (decimals tokenMeta),
             locked = FN_new 0 18, reserved = FN_new 0 18,
             available = fromInner (case query_assets_account s tokenId address of
                                 None \<Rightarrow> 0 | Some balance \<Rightarrow> of_nat balance)
                      (decimals tokenMeta)\<rparr>"
    by (auto simp: astar_subscribeBalance_def Let_def)
  with tokenId tokenMeta show ?thesis by simp
qed

lemma parallel_snapshot:
  assumes "token \<noteq> parallel_nativeToken ba"
    and "parallel_subscribeBalance ba token address = Inr obs" and "obs s = Inr b"
  shows "\<exists>tokenId tokenDecimals.
           parallel_SUPPORTED_TOKENS token = Some tokenId
         \<and> getTokenDecimals ba token = Inr tokenDecimals
         \<and> free b = fromInner (case query_assets_account s tokenId address of
                                 None \<Rightarrow> 0 | Some balance \<Rightarrow> of_nat balance)
                      tokenDecimals
         \<and> available b = free b \<and> locked b = FN_new 0 18 \<and> reserved b = FN_new 0 18"
proof -
  from assms(1,2) obtain tokenId where tokenId: "parallel_SUPPORTED_TOKENS token = Some tokenId"
    by (cases "parallel_SUPPORTED_TOKENS token")
      (simp_all add: parallel_subscribeBalance_def Let_def)
  with assms obtain tokenDecimals where dec: "getTokenDecimals ba token = Inr tokenDecimals"
    by (cases "getTokenDecimals ba token")
      (auto simp: parallel_subscribeBalance_def Let_def split: if_splits)
  from assms tokenId dec
  have "b = \<lparr>free = fromInner (case query_assets_account s tokenId address of
                                 None \<Rightarrow> 0 | Some balance \<Rightarrow> of_nat balance)
                      tokenDecimals,
             locked = FN_new 0 18, reserved = FN_new 0 18,
             available = fromInner (case query_assets_account s tokenId address of
                                 None \<Rightarrow> 0 | Some balance \<Rightarrow> of_nat balance)
                      tokenDecimals\<rparr>"
    by (auto simp: parallel_subscribeBalance_def Let_def split: if_splits)
  with tokenId dec show ?thesis by simp
qed

text \<open>
  Claim C7. Every snapshot that the balance normalizer emits for a non-native token has
  \<open>free = available =\<close> the raw balance of the per-token account, read as smallest units
  at the token's precision (nothing when the account has none), and
  \<open>locked = reserved = 0\<close>; hence \<open>free \<ge> available\<close>. The Interlay normalizer reads every
  supported token from the per-token store; the Astar and the Parallel normalizer read
  the tokens other than the native one from it.
\<close>

theorem non_native_balance_snapshot:
  "(interlay_subscribeBalance ba token address = Inr obs \<and> obs s = Inr b \<longrightarrow>
      (\<exists>tokenId tokenMeta.
           getSupportedTokens (ba_chain ba) token = Some tokenId
         \<and> getToken ba token = Inr tokenMeta
         \<and> free b = fromInner (case query_tokens_accounts s address tokenId of
                                 None \<Rightarrow> 0 | Some balance \<Rightarrow> of_nat balance)
                      (decimals tokenMeta))
      \<and> available b = free b \<and> locked b = FN_new 0 18 \<and> reserved b = FN_new 0 18
      \<and> FN_value (locked b) = 0 \<and> FN_value (reserved b) = 0
      \<and> FN_value (available b) \<le> FN_value (free b))
 \<and> (token' \<noteq> nativeToken ba'
      \<and> astar_subscribeBalance ba' token' address' = Inr obs' \<and> obs' s' = Inr b' \<longrightarrow>
      (\<exists>tokenId tokenMeta.
           astar_SUPPORTED_TOKENS token' = Some tokenId
         \<and> getToken ba' token' = Inr tokenMeta
         \<and> free b' = fromInner (case query_assets_account s' tokenId address' of
                                  None \<Rightarrow> 0 | Some balance \<Rightarrow> of_nat balance)
                       (decimals tokenMeta))
      \<and> available b' = free b' \<and> locked b' = FN_new 0 18 \<and> reserved b' = FN_new 0 18
      \<and> FN_value (locked b') = 0 \<and> FN_value (reserved b') = 0
      \<and> FN_value (available b') \<le> FN_value (free b'))
 \<and> (tokenp \<noteq> parallel_nativeToken bap
      \<and> parallel_subscribeBalance bap tokenp addressp = Inr obsp \<and> obsp sp = Inr bp \<longrightarrow>
      (\<exists>tokenId tokenDecimals.
           parallel_SUPPORTED_TOKENS tokenp = Some tokenId
         \<and> getTokenDecimals bap tokenp = Inr tokenDecimals
         \<and> free bp = fromInner (case query_assets_account sp tokenId addressp of
                                  None \<Rightarrow> 0 | Some balance \<Rightarrow> of_nat balance)
                       tokenDecimals)
      \<and> available bp = free bp \<and> locked bp = FN_new 0 18 \<and> reserved bp = FN_new 0 18
      \<and> FN_value (locked bp) = 0 \<and> FN_value (reserved bp) = 0
      \<and> FN_value (available bp) \<le> FN_value (free bp))"
proof (intro conjI impI)
  assume "interlay_subscribeBalance ba token address = Inr obs \<and> obs s = Inr b"
  then obtain tokenId tokenMeta where
    "getSupportedTokens (ba_chain ba) token = Some tokenId"
    "getToken ba token = Inr tokenMeta"
    "free b = fromInner (case query_tokens_accounts s address tokenId of
                           None \<Rightarrow> 0 | Some balance \<Rightarrow> of_nat balance) (decimals tokenMeta)"
    "available b = free b" "locked b = FN_new 0 18" "reserved b = FN_new 0 18"
    using interlay_snapshot [of ba token address obs s b] by blast
  then show "\<exists>tokenId tokenMeta.
           getSupportedTokens (ba_chain ba) token = Some tokenId
         \<and> getToken ba token = Inr tokenMeta
         \<and> free b = fromInner (case query_tokens_accounts s address tokenId of
                                 None \<Rightarrow> 0 | Some balance \<Rightarrow> of_nat balance)
                      (decimals tokenMeta)"
    and "available b = free b" and "locked b = FN_new 0 18" and "reserved b = FN_new 0 18"
    and "FN_value (locked b) = 0" and "FN_value (reserved b) = 0"
    and "FN_value (available b) \<le> FN_value (free b)"
    by (auto simp: FN_value_zero)
next
  assume "token' \<noteq> nativeToken ba'
      \<and> astar_subscribeBalance ba' token' address' = Inr obs' \<and> obs' s' = Inr b'"
  then obtain tokenId tokenMeta where
    "astar_SUPPORTED_TOKENS token' = Some tokenId"
    "getToken ba' token' = Inr tokenMeta"
    "free b' = fromInner (case query_assets_account s' tokenId address' of
                           None \<Rightarrow> 0 | Some balance \<Rightarrow> of_nat balance) (decimals tokenMeta)"
    "available b' = free b'" "locked b' = FN_new 0 18" "reserved b' = FN_new 0 18"
    using astar_snapshot [of token' ba' address' obs' s' b'] by blast
  then show "\<exists>tokenId tokenMeta.
           astar_SUPPORTED_TOKENS token' = Some tokenId
         \<and> getToken ba' token' = Inr tokenMeta
         \<and> free b' = fromInner (case query_assets_account s' tokenId address' of
                                  None \<Rightarrow> 0 | Some balance \<Rightarrow> of_nat balance)
                       (decimals tokenMeta)"
    and "available b' = free b'" and "locked b' = FN_new 0 18" and "reserved b' = FN_new 0 18"
    and "FN_value (locked b') = 0" and "FN_value (reserved b') = 0"
    and "FN_value (available b') \<le> FN_value (free b')"
    by (auto simp: FN_value_zero)
next
  assume "tokenp \<noteq> parallel_nativeToken bap
      \<and> parallel_subscribeBalance bap tokenp addressp = Inr obsp \<and> obsp sp = Inr bp"
  then obtain tokenId tokenDecimals where
    "parallel_SUPPORTED_TOKENS tokenp = Some tokenId"
    "getTokenDecimals bap tokenp = Inr tokenDecimals"
    "free bp = fromInner (case query_assets_account sp tokenId addressp of
                           None \<Rightarrow> 0 | Some balance \<Rightarrow> of_nat balance) tokenDecimals"
    "available bp = free bp" "locked bp = FN_new 0 18" "reserved bp = FN_new 0 18"
    using parallel_snapshot [of tokenp bap addressp obsp sp bp] by blast
  then show "\<exists>tokenId tokenDecimals.
           parallel_SUPPORTED_TOKENS tokenp = Some tokenId
         \<and> getTokenDecimals bap tokenp = Inr tokenDecimals
         \<and> free bp = fromInner (case query_assets_account sp tokenId addressp of
                                  None \<Rightarrow> 0 | Some balance \<Rightarrow> of_nat balance)
                       tokenDecimals"
    and "available bp = free bp" and "locked bp = FN_new 0 18" and "reserved bp = FN_new 0 18"
    and "FN_value (locked bp) = 0" and "FN_value (reserved bp) = 0"
    and "FN_value (available bp) \<le> FN_value (free bp)"
    by (auto simp: FN_value_zero)
qed

theorem non_native_balance_snapshot_witness:
  "projr (interlay_subscribeBalance (the (this_balanceAdapter KintsugiAdapter)) ''KSM'' ''alice'')
     (sample_state 5 0 :: (unit, unit) chain_state)
     = Inr \<lparr>free = fromInner 5 12, locked = FN_new 0 18, reserved = FN_new 0 18,
            available = fromInner 5 12\<rparr>
 \<and> FN_value (fromInner 5 12) \<le> FN_value (fromInner 5 12)
 \<and> ''IBTC'' \<noteq> nativeToken (the (this_balanceAdapter AstarAdapter))
 \<and> projr (astar_subscribeBalance (the (this_balanceAdapter AstarAdapter)) ''IBTC'' ''alice'')
     (sample_state 7 0 :: (string, unit) chain_state)
     = Inr \<lparr>free = fromInner 7 8, locked = FN_new 0 18, reserved = FN_new 0 18,
            available = fromInner 7 8\<rparr>
 \<and> FN_value (fromInner 7 8) \<le> FN_value (fromInner 7 8)
 \<and> ''KAR'' \<noteq> parallel_nativeToken (the (this_balanceAdapter ParallelAdapter))
 \<and> projr (parallel_subscribeBalance (the (this_balanceAdapter ParallelAdapter)) ''KAR'' ''alice'')
     (sample_state 9 0 :: (nat, unit) chain_state)
     = Inr \<lparr>free = fromInner 9 12, locked = FN_new 0 18, reserved = FN_new 0 18,
            available = fromInner 9 12\<rparr>
 \<and> FN_value (fromInner 9 12) \<le> FN_value (fromInner 9 12)"
proof -
  let ?k = "the (this_balanceAdapter KintsugiAdapter)"
  let ?a = "the (this_balanceAdapter AstarAdapter)"
  let ?sk = "sample_state 5 0 :: (unit, unit) chain_state"
  let ?sa = "sample_state 7 0 :: (string, unit) chain_state"
  let ?bk = "\<lparr>free = fromInner 5 12, locked = FN_new 0 18, reserved = FN_new 0 18,
              available = fromInner 5 12\<rparr>"
  let ?ba = "\<lparr>free = fromInner 7 8, locked = FN_new 0 18, reserved = FN_new 0 18,
              available = fromInner 7 8\<rparr>"
  define obsk :: "(unit, unit, BalanceData) observable"
    where "obsk = projr (interlay_subscribeBalance ?k ''KSM'' ''alice'')"
  define obsa :: "(string, unit, BalanceData) observable"
    where "obsa = projr (astar_subscribeBalance ?a ''IBTC'' ''alice'')"
  have k: "?k = new_BalanceAdapter ''kintsugi'' (sample_api ''KINT'' 12 True)
                  (interlayTokensConfig ''kintsugi'')"
    by (simp add: KintsugiAdapter_def interlay_setApi_def new_InterlayAdapter_def new_KintsugiAdapter_def new_AstarAdapter_def
        new_BaseCrossChainAdapter_def interlayRoutersConfig_def kintsugiRoutersConfig_def
        astarRoutersConfig_def sample_parallel_routers_def sample_parallel_tokens_def DEST_WEIGHT_def sample_chains_def
        Let_def)
  have a: "?a = new_BalanceAdapter ''astar'' (sample_api ''ASTR'' 18 False)
                  (astarTokensConfig ''astar'')"
    by (simp add: AstarAdapter_def astar_setApi_def new_InterlayAdapter_def new_KintsugiAdapter_def new_AstarAdapter_def
        new_BaseCrossChainAdapter_def interlayRoutersConfig_def kintsugiRoutersConfig_def
        astarRoutersConfig_def sample_parallel_routers_def sample_parallel_tokens_def DEST_WEIGHT_def sample_chains_def Let_def)
  have k1: "interlay_subscribeBalance ?k ''KSM'' ''alice'' = Inr obsk"
    unfolding obsk_def k
    by (simp add: interlay_subscribeBalance_def getSupportedTokens_def
        KINTSUGI_SUPPORTED_TOKENS_def new_BalanceAdapter_def)
  have k2: "obsk ?sk = Inr ?bk"
    unfolding obsk_def k
    by (simp add: interlay_subscribeBalance_def getSupportedTokens_def
        KINTSUGI_SUPPORTED_TOKENS_def new_BalanceAdapter_def getToken_def
        interlayTokensConfig_def sample_state_def Let_def)
  have a0: "''IBTC'' \<noteq> nativeToken ?a"
    unfolding a by (simp add: new_BalanceAdapter_def sample_api_def)
  have a1: "astar_subscribeBalance ?a ''IBTC'' ''alice'' = Inr obsa"
    unfolding obsa_def a
    by (simp add: astar_subscribeBalance_def astar_SUPPORTED_TOKENS_def new_BalanceAdapter_def
        sample_api_def)
  have a2: "obsa ?sa = Inr ?ba"
    unfolding obsa_def a
    by (simp add: astar_subscribeBalance_def astar_SUPPORTED_TOKENS_def new_BalanceAdapter_def
        sample_api_def getToken_def astarTokensConfig_def sample_state_def Let_def)
  let ?p = "the (this_balanceAdapter ParallelAdapter)"
  let ?sp = "sample_state 9 0 :: (nat, unit) chain_state"
  let ?bp = "\<lparr>free = fromInner 9 12, locked = FN_new 0 18, reserved = FN_new 0 18,
              available = fromInner 9 12\<rparr>"
  define obsp :: "(nat, unit, BalanceData) observable"
    where "obsp = projr (parallel_subscribeBalance ?p ''KAR'' ''alice'')"
  have p: "?p = \<lparr>parallel_nativeToken = ''PARA'', parallel_decimals = 12,
             getTokenDecimals = (\<lambda>token. Inr 12),
             getTokenED = (\<lambda>token. Inr (Some (fromInner 100000000000 12)))\<rparr>"
    by (simp add: ParallelAdapter_def parallel_setApi_def sample_api_def)
  have p0: "''KAR'' \<noteq> parallel_nativeToken ?p"
    unfolding p by simp
  have p1: "parallel_subscribeBalance ?p ''KAR'' ''alice'' = Inr obsp"
    unfolding obsp_def p
    by (simp add: parallel_subscribeBalance_def parallel_SUPPORTED_TOKENS_def Let_def)
  have p2: "obsp ?sp = Inr ?bp"
    unfolding obsp_def p
    by (simp add: parallel_subscribeBalance_def parallel_SUPPORTED_TOKENS_def sample_state_def
        Let_def)
  from non_native_balance_snapshot [where ba = ?k and token = "''KSM''" and address = "''alice''"
      and obs = obsk and s = ?sk and b = ?bk and ba' = ?a and token' = "''IBTC''"
      and address' = "''alice''" and obs' = obsa and s' = ?sa and b' = ?ba
      and bap = ?p and tokenp = "''KAR''" and addressp = "''alice''" and obsp = obsp
      and sp = ?sp and bp = ?bp] k1 k2 a0 a1 a2 p0 p1 p2
  have "FN_value (available ?bk) \<le> FN_value (free ?bk)"
    and "FN_value (available ?ba) \<le> FN_value (free ?ba)"
    and "FN_value (available ?bp) \<le> FN_value (free ?bp)"
    by blast+
  with k2 a0 a2 p0 p2 show ?thesis
    unfolding obsk_def obsa_def obsp_def by simp
qed

section \<open>Addressing shapes of the Interlay message builder\<close>

lemma interlay_createTx_dest:
  assumes "interlay_createTx chains_cfg this params = Inr tx"
  shows "\<exists>api accountId.
           this_api this = Some api
         \<and> accountId32 api (params_address params) = Inr accountId
         \<and> call_dest tx =
             V1 (if isChainEqual (chains_cfg (params_to params)) ''kusama''
                    \<or> isChainEqual (chains_cfg (params_to params)) ''polkadot''
                 then \<lparr>parents = 1, interior = X1 (AccountId32 accountId (Some ''Any''))\<rparr>
                 else \<lparr>parents = 1,
                       interior = X2 (Parachain (paraChainId (chains_cfg (params_to params))))
                                    (AccountId32 accountId (Some ''Any''))\<rparr>)"
proof -
  from assms obtain api where api: "this_api this = Some api"
    by (cases "this_api this") (simp_all add: interlay_createTx_def)
  with assms obtain accountId where acc: "accountId32 api (params_address params) = Inr accountId"
    by (cases "accountId32 api (params_address params)") (simp_all add: interlay_createTx_def Let_def)
  with assms api obtain tokenId where
    tok: "getSupportedTokens (chain_id (this_chain this)) (params_token params) = Some tokenId"
    by (cases "getSupportedTokens (chain_id (this_chain this)) (params_token params)")
      (simp_all add: interlay_createTx_def Let_def)
  from assms api acc tok have "call_dest tx =
             V1 (if isChainEqual (chains_cfg (params_to params)) ''kusama''
                    \<or> isChainEqual (chains_cfg (params_to params)) ''polkadot''
                 then \<lparr>parents = 1, interior = X1 (AccountId32 accountId (Some ''Any''))\<rparr>
                 else \<lparr>parents = 1,
                       interior = X2 (Parachain (paraChainId (chains_cfg (params_to params))))
                                    (AccountId32 accountId (Some ''Any''))\<rparr>)"
    by (auto simp: interlay_createTx_def Let_def split: sum.splits if_splits)
  with api acc show ?thesis by blast
qed

text \<open>
  Claim C8. For the same amount and address, and for any tokens with which the two
  messages can be built (the same one, if the adapter has both routes for it), the
  Interlay message builder addresses a relay chain (Kusama or Polkadot) with the
  single-level shape, \<open>X1\<close> holding only the account, and any other chain with the
  two-level shape, \<open>X2\<close> holding the parachain id and then the account. The two
  destinations differ.
\<close>

theorem relay_and_sibling_shapes:
  assumes "isChainEqual (chains_cfg relay) ''kusama'' \<or> isChainEqual (chains_cfg relay) ''polkadot''"
    and "\<not> (isChainEqual (chains_cfg sibling) ''kusama''
            \<or> isChainEqual (chains_cfg sibling) ''polkadot'')"
    and "interlay_createTx chains_cfg this
           \<lparr>params_to = relay, params_token = token_relay, params_amount = amount,
            params_address = address, params_signer = signer\<rparr> = Inr tx_relay"
    and "interlay_createTx chains_cfg this
           \<lparr>params_to = sibling, params_token = token_sibling, params_amount = amount,
            params_address = address, params_signer = signer\<rparr> = Inr tx_sibling"
  shows "\<exists>api accountId.
           this_api this = Some api \<and> accountId32 api address = Inr accountId
         \<and> call_dest tx_relay =
             V1 \<lparr>parents = 1, interior = X1 (AccountId32 accountId (Some ''Any''))\<rparr>
         \<and> call_dest tx_sibling =
             V1 \<lparr>parents = 1,
                 interior = X2 (Parachain (paraChainId (chains_cfg sibling)))
                              (AccountId32 accountId (Some ''Any''))\<rparr>
         \<and> call_dest tx_relay \<noteq> call_dest tx_sibling"
proof -
  from interlay_createTx_dest [OF assms(3)] assms(1)
  obtain api accountId where r: "this_api this = Some api" "accountId32 api address = Inr accountId"
    "call_dest tx_relay = V1 \<lparr>parents = 1, interior = X1 (AccountId32 accountId (Some ''Any''))\<rparr>"
    by auto
  from interlay_createTx_dest [OF assms(4)] assms(2) r(1,2)
  have s: "call_dest tx_sibling =
             V1 \<lparr>parents = 1,
                 interior = X2 (Parachain (paraChainId (chains_cfg sibling)))
                              (AccountId32 accountId (Some ''Any''))\<rparr>"
    by auto
  from r s show ?thesis by auto
qed

theorem relay_and_sibling_shapes_witness:
  "interlay_createTx sample_chains InterlayAdapter
       \<lparr>params_to = ''polkadot'', params_token = ''DOT'',
        params_amount = fromInner 10000000000 10,
        params_address = ''alice'', params_signer = ''alice''\<rparr>
     = Inr (XTokens_transfer (Token ''DOT'') 10000000000
              (V1 \<lparr>parents = 1, interior = X1 (AccountId32 ''0xalice'' (Some ''Any''))\<rparr>)
              (Some ''5000000000''))
 \<and> interlay_createTx sample_chains InterlayAdapter
       \<lparr>params_to = ''statemint'', params_token = ''USDT'',
        params_amount = fromInner 10000000000 10,
        params_address = ''alice'', params_signer = ''alice''\<rparr>
     = Inr (XTokens_transferMulticurrencies
              [(ForeignAsset 2, 10000000000), (Token ''DOT'', 1000000000)] 1
              (V1 \<lparr>parents = 1,
                   interior = X2 (Parachain 1000) (AccountId32 ''0xalice'' (Some ''Any''))\<rparr>)
              (Some ''5000000000''))
 \<and> interlay_createTx sample_chains InterlayAdapter
       \<lparr>params_to = ''acala'', params_token = ''DOT'',
        params_amount = fromInner 10000000000 10,
        params_address = ''alice'', params_signer = ''alice''\<rparr>
     = Inl (RouteNotFound ''DOT'' ''acala'')
 \<and> call_dest (projr (interlay_createTx sample_chains KintsugiAdapter
       \<lparr>params_to = ''kusama'', params_token = ''KSM'',
        params_amount = fromInner 10000000000 10,
        params_address = ''alice'', params_signer = ''alice''\<rparr>))
     = V1 \<lparr>parents = 1, interior = X1 (AccountId32 ''0xalice'' (Some ''Any''))\<rparr>
 \<and> call_dest (projr (interlay_createTx sample_chains KintsugiAdapter
       \<lparr>params_to = ''statemine'', params_token = ''USDT'',
        params_amount = fromInner 10000000000 10,
        params_address = ''alice'', params_signer = ''alice''\<rparr>))
     = V1 \<lparr>parents = 1,
           interior = X2 (Parachain 1000) (AccountId32 ''0xalice'' (Some ''Any''))\<rparr>"
proof -
  let ?p = "\<lambda>to token. \<lparr>params_to = to, params_token = token,
        params_amount = fromInner 10000000000 10,
        params_address = ''alice'', params_signer = ''alice''\<rparr>"
  have relay: "isChainEqual (sample_chains ''polkadot'') ''kusama''
      \<or> isChainEqual (sample_chains ''polkadot'') ''polkadot''"
    "isChainEqual (sample_chains ''kusama'') ''kusama''
      \<or> isChainEqual (sample_chains ''kusama'') ''polkadot''"
    by (simp_all add: isChainEqual_def sample_chains_def)
  have sibling: "\<not> (isChainEqual (sample_chains ''statemint'') ''kusama''
      \<or> isChainEqual (sample_chains ''statemint'') ''polkadot'')"
    "\<not> (isChainEqual (sample_chains ''statemine'') ''kusama''
      \<or> isChainEqual (sample_chains ''statemine'') ''polkadot'')"
    by (simp_all add: isChainEqual_def sample_chains_def)
  have api: "this_api InterlayAdapter = Some (sample_api ''INTR'' 10 True)"
    "this_api KintsugiAdapter = Some (sample_api ''KINT'' 12 True)"
    by (simp_all add: InterlayAdapter_def KintsugiAdapter_def interlay_setApi_def Let_def)
  have acc: "accountId32 (sample_api ''INTR'' 10 True) ''alice'' = Inr ''0xalice''"
    "accountId32 (sample_api ''KINT'' 12 True) ''alice'' = Inr ''0xalice''"
    by (simp_all add: sample_api_def)
  have para: "paraChainId (sample_chains ''statemint'') = 1000"
    "paraChainId (sample_chains ''statemine'') = 1000"
    by (simp_all add: sample_chains_def)
  have i1: "interlay_createTx sample_chains InterlayAdapter (?p ''polkadot'' ''DOT'')
      = Inr (XTokens_transfer (Token ''DOT'') 10000000000
              (V1 \<lparr>parents = 1, interior = X1 (AccountId32 ''0xalice'' (Some ''Any''))\<rparr>)
              (Some ''5000000000''))"
    by (simp add: interlay_createTx_def InterlayAdapter_def interlay_setApi_def
        new_InterlayAdapter_def new_BaseCrossChainAdapter_def interlayRoutersConfig_def
        DEST_WEIGHT_def sample_chains_def sample_api_def getSupportedTokens_def
        INTERLAY_SUPPORTED_TOKENS_def isChainEqual_def toChainData_def fromInner_def Let_def)
  have i2: "interlay_createTx sample_chains InterlayAdapter (?p ''statemint'' ''USDT'')
      = Inr (XTokens_transferMulticurrencies
              [(ForeignAsset 2, 10000000000), (Token ''DOT'', 1000000000)] 1
              (V1 \<lparr>parents = 1,
                   interior = X2 (Parachain 1000) (AccountId32 ''0xalice'' (Some ''Any''))\<rparr>)
              (Some ''5000000000''))"
    by (simp add: interlay_createTx_def InterlayAdapter_def interlay_setApi_def
        new_InterlayAdapter_def new_BaseCrossChainAdapter_def interlayRoutersConfig_def
        interlayTokensConfig_def DEST_WEIGHT_def sample_chains_def sample_api_def
        getSupportedTokens_def INTERLAY_SUPPORTED_TOKENS_def isChainEqual_def toChainData_def
        fromInner_def Let_def)
  have i3: "interlay_createTx sample_chains InterlayAdapter (?p ''acala'' ''DOT'')
      = Inl (RouteNotFound ''DOT'' ''acala'')"
    by (simp add: interlay_createTx_def InterlayAdapter_def interlay_setApi_def
        new_InterlayAdapter_def new_BaseCrossChainAdapter_def interlayRoutersConfig_def
        DEST_WEIGHT_def sample_chains_def sample_api_def getSupportedTokens_def
        INTERLAY_SUPPORTED_TOKENS_def isChainEqual_def Let_def)
  have k1: "interlay_createTx sample_chains KintsugiAdapter (?p ''kusama'' ''KSM'')
      = Inr (projr (interlay_createTx sample_chains KintsugiAdapter (?p ''kusama'' ''KSM'')))"
    by (simp add: interlay_createTx_def KintsugiAdapter_def interlay_setApi_def
        new_KintsugiAdapter_def new_BaseCrossChainAdapter_def kintsugiRoutersConfig_def
        DEST_WEIGHT_def sample_chains_def sample_api_def getSupportedTokens_def
        KINTSUGI_SUPPORTED_TOKENS_def isChainEqual_def Let_def)
  have k2: "interlay_createTx sample_chains KintsugiAdapter (?p ''statemine'' ''USDT'')
      = Inr (projr (interlay_createTx sample_chains KintsugiAdapter (?p ''statemine'' ''USDT'')))"
    by (simp add: interlay_createTx_def KintsugiAdapter_def interlay_setApi_def
        new_KintsugiAdapter_def new_BaseCrossChainAdapter_def kintsugiRoutersConfig_def
        interlayTokensConfig_def DEST_WEIGHT_def sample_chains_def sample_api_def
        getSupportedTokens_def KINTSUGI_SUPPORTED_TOKENS_def isChainEqual_def Let_def)
  from relay_and_sibling_shapes [OF relay(2) sibling(2) k1 k2] api(2) acc(2) para(2)
  have "call_dest (projr (interlay_createTx sample_chains KintsugiAdapter (?p ''kusama'' ''KSM'')))
      = V1 \<lparr>parents = 1, interior = X1 (AccountId32 ''0xalice'' (Some ''Any''))\<rparr>
    \<and> call_dest (projr (interlay_createTx sample_chains KintsugiAdapter
          (?p ''statemine'' ''USDT'')))
      = V1 \<lparr>parents = 1,
            interior = X2 (Parachain 1000) (AccountId32 ''0xalice'' (Some ''Any''))\<rparr>"
    by auto
  with i1 i2 i3 show ?thesis by simp
qed

section \<open>General-key padding in the Astar message builder\<close>

lemma length_hex_digits: "length (concat (map hexByte bytes)) = 2 * length bytes"
  by (induction bytes) (simp_all add: hexByte_def)

lemma length_toHex: "length (toHex bytes) = 2 * length bytes + 2"
  by (simp add: toHex_def length_hex_digits)

lemma hexByte_zero: "hexByte 0 = ''00''"
  by (simp add: hexByte_def hexDigit_def)

lemma concat_replicate_zeros: "concat (replicate n ''00'') = replicate (2 * n) CHR ''0''"
  by (induction n) simp_all

lemma toHex_append_zeros:
  "toHex (bytes @ replicate k 0) = toHex bytes @ replicate (2 * k) CHR ''0''"
  by (simp add: toHex_def map_replicate_const [symmetric] hexByte_zero concat_replicate_zeros
      del: replicate.simps)

lemma padded_hex:
  assumes "length bytes \<le> N"
  shows "paddedTokenId N (toHex bytes) = toHex (bytes @ replicate (N - length bytes) 0)"
proof (cases "length bytes = N")
  case True
  then show ?thesis
    by (simp add: paddedTokenId_def padEnd_def length_toHex)
next
  case False
  with assms have less: "length bytes < N" by simp
  define k where "k = N - length bytes"
  have missing: "2 * N + 2 - length (toHex bytes) = 2 * k"
    using less by (simp add: length_toHex k_def)
  have "take (2 * k) (concat (replicate (2 * k) ''00'')) = replicate (2 * k) CHR ''0''"
    by (simp add: concat_replicate_zeros)
  with less missing have "paddedTokenId N (toHex bytes) = toHex bytes @ replicate (2 * k) CHR ''0''"
    by (simp add: paddedTokenId_def padEnd_def length_toHex)
  then show ?thesis
    by (simp add: toHex_append_zeros k_def)
qed

lemma byteCount_hex: "tokenIdByteCount (toHex bytes) = of_nat (length bytes)"
proof -
  have "replace (toHex bytes) ''0x'' [] = concat (map hexByte bytes)"
    by (simp add: toHex_def)
  then show ?thesis
    by (simp add: tokenIdByteCount_def length_hex_digits)
qed

lemma astar_tokenIds_hex:
  "astar_tokenIds ''IBTC'' = Some (toHex [0, 1])" "astar_tokenIds ''INTR'' = Some (toHex [0, 2])"
  by (simp_all add: astar_tokenIds_def toHex_def hexByte_def hexDigit_def)

lemma astar_createTx_V3:
  assumes "this_api this = Some api" and "\<not> supportsV0V1Multilocation api"
    and "accountId32 api (params_address params) = Inr accountId"
    and "Some (params_token params) \<noteq> map_option nativeToken (this_balanceAdapter this)"
    and "astar_tokenIds (params_token params) = Some tokenId"
  shows "astar_createTx N chains_cfg this params =
           Inr (PolkadotXcm_reserveWithdrawAssets
                  (V3 \<lparr>parents = 1,
                       interior = X1 (Parachain (paraChainId (chains_cfg (params_to params))))\<rparr>)
                  (V3 \<lparr>parents = 0, interior = X1 (AccountId32 accountId None)\<rparr>)
                  (V3 [\<lparr>concrete =
                          \<lparr>parents = 1,
                           interior = X2 (Parachain (paraChainId (chains_cfg (params_to params))))
                                        (GeneralKeyV3 (tokenIdByteCount tokenId)
                                           (paddedTokenId N tokenId))\<rparr>,
                        fungible = toChainData (params_amount params)\<rparr>])
                  0)"
  using assms by (simp add: astar_createTx_def Let_def)

text \<open>
  Claim C9. For a raw token id of at most \<open>N = XCM_V3_GENERAL_KEY_DATA_BYTES\<close> bytes the
  padded id is the raw id followed by zero bytes up to exactly \<open>N\<close> bytes, and a raw id of
  \<open>N\<close> bytes is passed through unchanged; the byte count is the one of the raw id. In the
  V3 branch of the Astar message builder the general key of a non-native token carries
  this byte count and this padded id. The two ids of the adapter have two bytes.
\<close>

theorem general_key_padding:
  "(length bytes \<le> N \<longrightarrow>
      paddedTokenId N (toHex bytes) = toHex (bytes @ replicate (N - length bytes) 0)
    \<and> length (bytes @ replicate (N - length bytes) 0) = N)
 \<and> (length bytes = N \<longrightarrow> paddedTokenId N (toHex bytes) = toHex bytes)
 \<and> tokenIdByteCount (toHex bytes) = of_nat (length bytes)
 \<and> astar_tokenIds ''IBTC'' = Some (toHex [0, 1])
 \<and> astar_tokenIds ''INTR'' = Some (toHex [0, 2])
 \<and> (this_api this = Some api \<and> \<not> supportsV0V1Multilocation api
      \<and> accountId32 api (params_address params) = Inr accountId
      \<and> Some (params_token params) \<noteq> map_option nativeToken (this_balanceAdapter this)
      \<and> astar_tokenIds (params_token params) = Some tokenId \<longrightarrow>
    astar_createTx N chains_cfg this params =
      Inr (PolkadotXcm_reserveWithdrawAssets
             (V3 \<lparr>parents = 1,
                  interior = X1 (Parachain (paraChainId (chains_cfg (params_to params))))\<rparr>)
             (V3 \<lparr>parents = 0, interior = X1 (AccountId32 accountId None)\<rparr>)
             (V3 [\<lparr>concrete =
                     \<lparr>parents = 1,
                      interior = X2 (Parachain (paraChainId (chains_cfg (params_to params))))
                                   (GeneralKeyV3 (tokenIdByteCount tokenId)
                                      (paddedTokenId N tokenId))\<rparr>,
                   fungible = toChainData (params_amount params)\<rparr>])
             0))"
proof (intro conjI impI)
  assume le: "length bytes \<le> N"
  then show "paddedTokenId N (toHex bytes) = toHex (bytes @ replicate (N - length bytes) 0)"
    by (rule padded_hex)
  from le show "length (bytes @ replicate (N - length bytes) 0) = N"
    by simp
next
  assume "length bytes = N"
  then show "paddedTokenId N (toHex bytes) = toHex bytes"
    using padded_hex [of bytes N] by simp
next
  show "tokenIdByteCount (toHex bytes) = of_nat (length bytes)"
    by (rule byteCount_hex)
next
  show "astar_tokenIds ''IBTC'' = Some (toHex [0, 1])"
    and "astar_tokenIds ''INTR'' = Some (toHex [0, 2])"
    by (rule astar_tokenIds_hex)+
next
  assume "this_api this = Some api \<and> \<not> supportsV0V1Multilocation api
      \<and> accountId32 api (params_address params) = Inr accountId
      \<and> Some (params_token params) \<noteq> map_option nativeToken (this_balanceAdapter this)
      \<and> astar_tokenIds (params_token params) = Some tokenId"
  then show "astar_createTx N chains_cfg this params =
      Inr (PolkadotXcm_reserveWithdrawAssets
             (V3 \<lparr>parents = 1,
                  interior = X1 (Parachain (paraChainId (chains_cfg (params_to params))))\<rparr>)
             (V3 \<lparr>parents = 0, interior = X1 (AccountId32 accountId None)\<rparr>)
             (V3 [\<lparr>concrete =
                     \<lparr>parents = 1,
                      interior = X2 (Parachain (paraChainId (chains_cfg (params_to params))))
                                   (GeneralKeyV3 (tokenIdByteCount tokenId)
                                      (paddedTokenId N tokenId))\<rparr>,
                   fungible = toChainData (params_amount params)\<rparr>])
             0)"
    using astar_createTx_V3 [of this api params accountId tokenId N chains_cfg] by blast
qed

theorem general_key_padding_witness:
  "astar_createTx 32 sample_chains AstarAdapter
     \<lparr>params_to = ''interlay'', params_token = ''IBTC'', params_amount = fromInner 5 8,
      params_address = ''alice'', params_signer = ''alice''\<rparr> =
   Inr (PolkadotXcm_reserveWithdrawAssets
          (V3 \<lparr>parents = 1, interior = X1 (Parachain 2032)\<rparr>)
          (V3 \<lparr>parents = 0, interior = X1 (AccountId32 ''0xalice'' None)\<rparr>)
          (V3 [\<lparr>concrete =
                  \<lparr>parents = 1,
                   interior = X2 (Parachain 2032)
                     (GeneralKeyV3 2
                        ''0x0001000000000000000000000000000000000000000000000000000000000000'')\<rparr>,
                fungible = 5\<rparr>])
          0)
 \<and> paddedTokenId 2 (toHex [0, 1]) = ''0x0001''"
proof -
  let ?p = "\<lparr>params_to = ''interlay'', params_token = ''IBTC'', params_amount = fromInner 5 8,
      params_address = ''alice'', params_signer = ''alice''\<rparr>"
  note inst = general_key_padding [where bytes = "[0, 1]" and this = AstarAdapter
      and api = "sample_api ''ASTR'' 18 False" and params = ?p and accountId = "''0xalice''"
      and tokenId = "toHex [0, 1]" and chains_cfg = sample_chains]
  have api: "this_api AstarAdapter = Some (sample_api ''ASTR'' 18 False)"
    by (simp add: AstarAdapter_def astar_setApi_def Let_def)
  have v3: "\<not> supportsV0V1Multilocation (sample_api ''ASTR'' 18 False)"
    by (simp add: sample_api_def)
  have acc: "accountId32 (sample_api ''ASTR'' 18 False) (params_address ?p) = Inr ''0xalice''"
    by (simp add: sample_api_def)
  have native: "Some (params_token ?p) \<noteq> map_option nativeToken (this_balanceAdapter AstarAdapter)"
    by (simp add: AstarAdapter_def astar_setApi_def Let_def new_BalanceAdapter_def sample_api_def)
  have tok: "astar_tokenIds (params_token ?p) = Some (toHex [0, 1])"
    using inst [of 32] by simp
  have hex: "toHex ([0, 1] @ replicate (32 - length [0::nat, 1]) 0)
      = ''0x0001000000000000000000000000000000000000000000000000000000000000''"
    "toHex [0, 1] = ''0x0001''"
    by code_simp+
  have misc: "paraChainId (sample_chains (params_to ?p)) = 2032"
    "toChainData (params_amount ?p) = 5"
    by (simp_all add: sample_chains_def toChainData_def fromInner_def)
  have "length [0::nat, 1] \<le> 32" "length [0::nat, 1] = 2"
    by simp_all
  with inst [of 32] inst [of 2] api v3 acc native tok
  have "astar_createTx 32 sample_chains AstarAdapter ?p =
      Inr (PolkadotXcm_reserveWithdrawAssets
             (V3 \<lparr>parents = 1,
                  interior = X1 (Parachain (paraChainId (sample_chains (params_to ?p))))\<rparr>)
             (V3 \<lparr>parents = 0, interior = X1 (AccountId32 ''0xalice'' None)\<rparr>)
             (V3 [\<lparr>concrete =
                     \<lparr>parents = 1,
                      interior = X2 (Parachain (paraChainId (sample_chains (params_to ?p))))
                                   (GeneralKeyV3 (tokenIdByteCount (toHex [0, 1]))
                                      (paddedTokenId 32 (toHex [0, 1])))\<rparr>,
                   fungible = toChainData (params_amount ?p)\<rparr>])
             0)"
    and "paddedTokenId 32 (toHex [0, 1]) = toHex ([0, 1] @ replicate (32 - length [0::nat, 1]) 0)"
    and "tokenIdByteCount (toHex [0, 1]) = of_nat (length [0::nat, 1])"
    and "paddedTokenId 2 (toHex [0, 1]) = toHex [0, 1]"
    by blast+
  then show ?thesis
    unfolding hex misc by simp
qed

section \<open>The token id zero in the Parallel adapter\<close>

lemma parallel_createTx_falsy:
  assumes "this_api this = Some api"
    and "accountId32 api (params_address params) = Inr accountId"
    and "parallel_SUPPORTED_TOKENS (params_token params) = Some 0
           \<or> parallel_SUPPORTED_TOKENS (params_token params) = None"
  shows "parallel_createTx chains_cfg this params = Inl (CurrencyNotFound (params_token params))"
  using assms by (auto simp: parallel_createTx_def Let_def)

lemma parallel_subscribeBalance_falsy:
  assumes "token \<noteq> parallel_nativeToken ba"
    and "parallel_SUPPORTED_TOKENS token = Some 0 \<or> parallel_SUPPORTED_TOKENS token = None"
  shows "parallel_subscribeBalance ba token address = Inl (CurrencyNotFound token)"
  using assms by (auto simp: parallel_subscribeBalance_def Let_def)

text \<open>
  Claim C10. The token \<^verbatim>\<open>HKO\<close> is in the table of supported tokens, with the id 0. The
  lookup tests the id with \<^verbatim>\<open>!tokenId\<close>, so a token whose id is 0 is treated like a token
  that is not in the table: \<^verbatim>\<open>createTx\<close>, and \<^verbatim>\<open>subscribeBalance\<close> for a token other than the
  native one, throw \<^verbatim>\<open>CurrencyNotFound\<close> for it.
\<close>

theorem zero_token_id_not_found:
  "parallel_SUPPORTED_TOKENS ''HKO'' = Some 0
 \<and> (this_api this = Some api \<and> accountId32 api (params_address params) = Inr accountId
      \<and> (parallel_SUPPORTED_TOKENS (params_token params) = Some 0
           \<or> parallel_SUPPORTED_TOKENS (params_token params) = None) \<longrightarrow>
    parallel_createTx chains_cfg this params = Inl (CurrencyNotFound (params_token params)))
 \<and> (token \<noteq> parallel_nativeToken ba
      \<and> (parallel_SUPPORTED_TOKENS token = Some 0 \<or> parallel_SUPPORTED_TOKENS token = None) \<longrightarrow>
    parallel_subscribeBalance ba token address = Inl (CurrencyNotFound token))"
proof (intro conjI impI)
  show "parallel_SUPPORTED_TOKENS ''HKO'' = Some 0"
    by (simp add: parallel_SUPPORTED_TOKENS_def)
next
  assume "this_api this = Some api \<and> accountId32 api (params_address params) = Inr accountId
      \<and> (parallel_SUPPORTED_TOKENS (params_token params) = Some 0
           \<or> parallel_SUPPORTED_TOKENS (params_token params) = None)"
  then show "parallel_createTx chains_cfg this params
      = Inl (CurrencyNotFound (params_token params))"
    using parallel_createTx_falsy [of this api params accountId chains_cfg] by blast
next
  assume "token \<noteq> parallel_nativeToken ba
      \<and> (parallel_SUPPORTED_TOKENS token = Some 0 \<or> parallel_SUPPORTED_TOKENS token = None)"
  then show "parallel_subscribeBalance ba token address = Inl (CurrencyNotFound token)"
    using parallel_subscribeBalance_falsy [of token ba address] by blast
qed

theorem zero_token_id_not_found_witness:
  "parallel_createTx sample_chains ParallelAdapter
     \<lparr>params_to = ''acala'', params_token = ''HKO'', params_amount = fromInner 5 12,
      params_address = ''alice'', params_signer = ''alice''\<rparr> = Inl (CurrencyNotFound ''HKO'')
 \<and> parallel_createTx sample_chains ParallelAdapter
     \<lparr>params_to = ''acala'', params_token = ''XYZ'', params_amount = fromInner 5 12,
      params_address = ''alice'', params_signer = ''alice''\<rparr> = Inl (CurrencyNotFound ''XYZ'')
 \<and> (parallel_subscribeBalance (the (this_balanceAdapter ParallelAdapter)) ''HKO'' ''alice''
       :: error + (nat, unit, BalanceData) observable) = Inl (CurrencyNotFound ''HKO'')"
proof -
  let ?p = "\<lambda>token. \<lparr>params_to = ''acala'', params_token = token, params_amount = fromInner 5 12,
      params_address = ''alice'', params_signer = ''alice''\<rparr>"
  let ?ba = "the (this_balanceAdapter ParallelAdapter)"
  have api: "this_api ParallelAdapter = Some (sample_api ''PARA'' 12 True)"
    by (simp add: ParallelAdapter_def parallel_setApi_def)
  have acc: "accountId32 (sample_api ''PARA'' 12 True) (params_address (?p token)) = Inr ''0xalice''"
    for token
    by (simp add: sample_api_def)
  have hko: "parallel_SUPPORTED_TOKENS (params_token (?p ''HKO'')) = Some 0
      \<or> parallel_SUPPORTED_TOKENS (params_token (?p ''HKO'')) = None"
    by (simp add: parallel_SUPPORTED_TOKENS_def)
  have xyz: "parallel_SUPPORTED_TOKENS (params_token (?p ''XYZ'')) = Some 0
      \<or> parallel_SUPPORTED_TOKENS (params_token (?p ''XYZ'')) = None"
    by (simp add: parallel_SUPPORTED_TOKENS_def)
  have native: "''HKO'' \<noteq> parallel_nativeToken ?ba"
    by (simp add: ParallelAdapter_def parallel_setApi_def sample_api_def)
  have hko': "parallel_SUPPORTED_TOKENS ''HKO'' = Some 0 \<or> parallel_SUPPORTED_TOKENS ''HKO'' = None"
    by (simp add: parallel_SUPPORTED_TOKENS_def)
  have "parallel_createTx sample_chains ParallelAdapter (?p ''HKO'') = Inl (CurrencyNotFound ''HKO'')"
    using zero_token_id_not_found [THEN conjunct2, THEN conjunct1, THEN mp,
        of ParallelAdapter "sample_api ''PARA'' 12 True" "?p ''HKO''" "''0xalice''" sample_chains]
      api acc hko by simp
  moreover
  have "parallel_createTx sample_chains ParallelAdapter (?p ''XYZ'') = Inl (CurrencyNotFound ''XYZ'')"
    using zero_token_id_not_found [THEN conjunct2, THEN conjunct1, THEN mp,
        of ParallelAdapter "sample_api ''PARA'' 12 True" "?p ''XYZ''" "''0xalice''" sample_chains]
      api acc xyz by simp
  moreover
  have "(parallel_subscribeBalance ?ba ''HKO'' ''alice''
       :: error + (nat, unit, BalanceData) observable) = Inl (CurrencyNotFound ''HKO'')"
    using zero_token_id_not_found [THEN conjunct2, THEN conjunct2, THEN mp,
        of "''HKO''" ?ba "''alice''"] native hko' by simp
  ultimately show ?thesis by simp
qed

section \<open>The maximal input\<close>

lemma maxInput_amount_value:
  "FN_value (FN_minus (FN_minus balance (FN_times (fromInner txFee d) (FN_new (6 / 5) 18))) edFN)
     = maxSendable_spec (FN_value balance) (txFee / 10 ^ d) (FN_value edFN)"
  by (simp add: FN_value_minus FN_value_times FN_value_fromInner FN_value_new maxSendable_spec_def)

lemma estimateTxFee_Inr:
  assumes "estimateTxFee createTx params = Inr fee_observable"
  shows "\<exists>tx. createTx params = Inr tx \<and> fee_observable = (\<lambda>s. Inr (paymentInfo s tx))"
  using assms by (auto simp: estimateTxFee_def split: sum.splits)

lemma interlay_maxInput_value:
  assumes "interlay_subscribeMaxInput chains_cfg this token address to = Inr maxInput"
    and "maxInput s = Inr amount"
  shows "\<exists>ba balance_observable i tokenMeta txFee.
           this_balanceAdapter this = Some ba
         \<and> interlay_subscribeBalance ba token address = Inr balance_observable
         \<and> balance_observable s = Inr i
         \<and> getToken ba token = Inr tokenMeta
         \<and> (if token = nativeToken ba
             then \<exists>tx. interlay_createTx chains_cfg this
                         \<lparr>params_to = to, params_token = token, params_amount = FN_ZERO,
                          params_address = address, params_signer = address\<rparr> = Inr tx
                      \<and> txFee = paymentInfo s tx
             else txFee = 0)
         \<and> FN_value amount =
             maxSendable_spec (FN_value (available i)) (of_nat txFee / 10 ^ decimals tokenMeta)
               (of_nat (ed tokenMeta) / 10 ^ decimals tokenMeta)"
  using assms
  by (auto simp: interlay_subscribeMaxInput_def Let_def maxInput_amount_value FN_value_fromInner
      split: option.splits sum.splits if_splits dest!: estimateTxFee_Inr)

lemma astar_maxInput_value:
  assumes "astar_subscribeMaxInput N chains_cfg this token address to = Inr maxInput"
    and "maxInput s = Inr amount"
  shows "\<exists>ba balance_observable i tokenMeta txFee.
           this_balanceAdapter this = Some ba
         \<and> astar_subscribeBalance ba token address = Inr balance_observable
         \<and> balance_observable s = Inr i
         \<and> getToken ba token = Inr tokenMeta
         \<and> (if token = nativeToken ba
             then \<exists>tx. astar_createTx N chains_cfg this
                         \<lparr>params_to = to, params_token = token, params_amount = FN_ZERO,
                          params_address = address, params_signer = address\<rparr> = Inr tx
                      \<and> txFee = paymentInfo s tx
             else txFee = 0)
         \<and> FN_value amount =
             maxSendable_spec (FN_value (available i)) (of_nat txFee / 10 ^ decimals tokenMeta)
               (of_nat (ed tokenMeta) / 10 ^ decimals tokenMeta)"
  using assms
  by (auto simp: astar_subscribeMaxInput_def Let_def maxInput_amount_value FN_value_fromInner
      split: option.splits sum.splits if_splits dest!: estimateTxFee_Inr)

lemma parallel_maxInput_value:
  assumes "parallel_subscribeMaxInput chains_cfg this token address to = Inr maxInput"
    and "maxInput s = Inr amount"
  shows "\<exists>ba balance_observable i tokenDecimals tokenED txFee.
           this_balanceAdapter this = Some ba
         \<and> parallel_subscribeBalance ba token address = Inr balance_observable
         \<and> balance_observable s = Inr i
         \<and> getTokenDecimals ba token = Inr tokenDecimals
         \<and> getTokenED ba token = Inr tokenED
         \<and> (if token = parallel_nativeToken ba
             then \<exists>tx. parallel_createTx chains_cfg this
                         \<lparr>params_to = to, params_token = token, params_amount = FN_ZERO,
                          params_address = address, params_signer = address\<rparr> = Inr tx
                      \<and> txFee = paymentInfo s tx
             else txFee = 0)
         \<and> FN_value amount =
             maxSendable_spec (FN_value (available i)) (of_nat txFee / 10 ^ tokenDecimals)
               (FN_value (case tokenED of None \<Rightarrow> FN_ZERO | Some fn \<Rightarrow> fn))"
  using assms
  by (auto simp: parallel_subscribeMaxInput_def Let_def maxInput_amount_value FN_value_fromInner
      split: option.split_asm sum.split_asm if_split_asm dest!: estimateTxFee_Inr)

lemma emission_Inr:
  "emission subscription s = Inr x \<longleftrightarrow> (\<exists>obs. subscription = Inr obs \<and> obs s = Inr x)"
  by (cases subscription) (simp_all add: emission_def)

text \<open>
  Claim C3. Every amount that \<^verbatim>\<open>subscribeMaxInput\<close> emits, in each of the three adapters,
  stands for the available balance of the latest snapshot minus 1.2 times the estimated
  transaction fee minus the token's configured minimum balance to exist. The estimated
  fee is the dry-run fee of the transfer built by \<^verbatim>\<open>createTx\<close> when the token is the
  chain's native token, and zero otherwise; fee and minimum balance are smallest units
  at the token's precision.
\<close>

theorem maxInput_formula:
  "(emission (interlay_subscribeMaxInput chains_cfg this token address to) s = Inr amount \<longrightarrow>
     (\<exists>ba balance_observable i tokenMeta txFee.
           this_balanceAdapter this = Some ba
         \<and> interlay_subscribeBalance ba token address = Inr balance_observable
         \<and> balance_observable s = Inr i
         \<and> getToken ba token = Inr tokenMeta
         \<and> (if token = nativeToken ba
             then \<exists>tx. interlay_createTx chains_cfg this
                         \<lparr>params_to = to, params_token = token, params_amount = FN_ZERO,
                          params_address = address, params_signer = address\<rparr> = Inr tx
                      \<and> txFee = paymentInfo s tx
             else txFee = 0)
         \<and> FN_value amount =
             maxSendable_spec (FN_value (available i)) (of_nat txFee / 10 ^ decimals tokenMeta)
               (of_nat (ed tokenMeta) / 10 ^ decimals tokenMeta)))
 \<and> (emission (astar_subscribeMaxInput N chains_cfg this token address to) sa = Inr amount \<longrightarrow>
     (\<exists>ba balance_observable i tokenMeta txFee.
           this_balanceAdapter this = Some ba
         \<and> astar_subscribeBalance ba token address = Inr balance_observable
         \<and> balance_observable sa = Inr i
         \<and> getToken ba token = Inr tokenMeta
         \<and> (if token = nativeToken ba
             then \<exists>tx. astar_createTx N chains_cfg this
                         \<lparr>params_to = to, params_token = token, params_amount = FN_ZERO,
                          params_address = address, params_signer = address\<rparr> = Inr tx
                      \<and> txFee = paymentInfo sa tx
             else txFee = 0)
         \<and> FN_value amount =
             maxSendable_spec (FN_value (available i)) (of_nat txFee / 10 ^ decimals tokenMeta)
               (of_nat (ed tokenMeta) / 10 ^ decimals tokenMeta)))
 \<and> (emission (parallel_subscribeMaxInput chains_cfg thisp token address to) sp = Inr amount \<longrightarrow>
     (\<exists>ba balance_observable i tokenDecimals tokenED txFee.
           this_balanceAdapter thisp = Some ba
         \<and> parallel_subscribeBalance ba token address = Inr balance_observable
         \<and> balance_observable sp = Inr i
         \<and> getTokenDecimals ba token = Inr tokenDecimals
         \<and> getTokenED ba token = Inr tokenED
         \<and> (if token = parallel_nativeToken ba
             then \<exists>tx. parallel_createTx chains_cfg thisp
                         \<lparr>params_to = to, params_token = token, params_amount = FN_ZERO,
                          params_address = address, params_signer = address\<rparr> = Inr tx
                      \<and> txFee = paymentInfo sp tx
             else txFee = 0)
         \<and> FN_value amount =
             maxSendable_spec (FN_value (available i)) (of_nat txFee / 10 ^ tokenDecimals)
               (FN_value (case tokenED of None \<Rightarrow> FN_ZERO | Some fn \<Rightarrow> fn))))"
proof (intro conjI impI)
  assume "emission (interlay_subscribeMaxInput chains_cfg this token address to) s = Inr amount"
  then obtain maxInput where
    "interlay_subscribeMaxInput chains_cfg this token address to = Inr maxInput"
    "maxInput s = Inr amount"
    unfolding emission_Inr by blast
  then show "\<exists>ba balance_observable i tokenMeta txFee.
           this_balanceAdapter this = Some ba
         \<and> interlay_subscribeBalance ba token address = Inr balance_observable
         \<and> balance_observable s = Inr i
         \<and> getToken ba token = Inr tokenMeta
         \<and> (if token = nativeToken ba
             then \<exists>tx. interlay_createTx chains_cfg this
                         \<lparr>params_to = to, params_token = token, params_amount = FN_ZERO,
                          params_address = address, params_signer = address\<rparr> = Inr tx
                      \<and> txFee = paymentInfo s tx
             else txFee = 0)
         \<and> FN_value amount =
             maxSendable_spec (FN_value (available i)) (of_nat txFee / 10 ^ decimals tokenMeta)
               (of_nat (ed tokenMeta) / 10 ^ decimals tokenMeta)"
    by (rule interlay_maxInput_value)
next
  assume "emission (astar_subscribeMaxInput N chains_cfg this token address to) sa = Inr amount"
  then obtain maxInput where
    "astar_subscribeMaxInput N chains_cfg this token address to = Inr maxInput"
    "maxInput sa = Inr amount"
    unfolding emission_Inr by blast
  then show "\<exists>ba balance_observable i tokenMeta txFee.
           this_balanceAdapter this = Some ba
         \<and> astar_subscribeBalance ba token address = Inr balance_observable
         \<and> balance_observable sa = Inr i
         \<and> getToken ba token = Inr tokenMeta
         \<and> (if token = nativeToken ba
             then \<exists>tx. astar_createTx N chains_cfg this
                         \<lparr>params_to = to, params_token = token, params_amount = FN_ZERO,
                          params_address = address, params_signer = address\<rparr> = Inr tx
                      \<and> txFee = paymentInfo sa tx
             else txFee = 0)
         \<and> FN_value amount =
             maxSendable_spec (FN_value (available i)) (of_nat txFee / 10 ^ decimals tokenMeta)
               (of_nat (ed tokenMeta) / 10 ^ decimals tokenMeta)"
    by (rule astar_maxInput_value)
next
  assume "emission (parallel_subscribeMaxInput chains_cfg thisp token address to) sp = Inr amount"
  then obtain maxInput where
    "parallel_subscribeMaxInput chains_cfg thisp token address to = Inr maxInput"
    "maxInput sp = Inr amount"
    unfolding emission_Inr by blast
  then show "\<exists>ba balance_observable i tokenDecimals tokenED txFee.
           this_balanceAdapter thisp = Some ba
         \<and> parallel_subscribeBalance ba token address = Inr balance_observable
         \<and> balance_observable sp = Inr i
         \<and> getTokenDecimals ba token = Inr tokenDecimals
         \<and> getTokenED ba token = Inr tokenED
         \<and> (if token = parallel_nativeToken ba
             then \<exists>tx. parallel_createTx chains_cfg thisp
                         \<lparr>params_to = to, params_token = token, params_amount = FN_ZERO,
                          params_address = address, params_signer = address\<rparr> = Inr tx
                      \<and> txFee = paymentInfo sp tx
             else txFee = 0)
         \<and> FN_value amount =
             maxSendable_spec (FN_value (available i)) (of_nat txFee / 10 ^ tokenDecimals)
               (FN_value (case tokenED of None \<Rightarrow> FN_ZERO | Some fn \<Rightarrow> fn))"
    by (rule parallel_maxInput_value)
qed

lemma sample_balanceAdapters:
  "this_balanceAdapter InterlayAdapter
     = Some (new_BalanceAdapter ''interlay'' (sample_api ''INTR'' 10 True)
               (interlayTokensConfig ''interlay''))"
  "this_balanceAdapter AstarAdapter
     = Some (new_BalanceAdapter ''astar'' (sample_api ''ASTR'' 18 False)
               (astarTokensConfig ''astar''))"
  "this_balanceAdapter ParallelAdapter
     = Some \<lparr>parallel_nativeToken = ''PARA'', parallel_decimals = 12,
             getTokenDecimals = (\<lambda>token. Inr 12),
             getTokenED = (\<lambda>token. Inr (Some (fromInner 100000000000 12)))\<rparr>"
  by (simp_all add: InterlayAdapter_def AstarAdapter_def ParallelAdapter_def interlay_setApi_def
      astar_setApi_def parallel_setApi_def new_InterlayAdapter_def new_KintsugiAdapter_def new_AstarAdapter_def
        new_BaseCrossChainAdapter_def interlayRoutersConfig_def kintsugiRoutersConfig_def
        astarRoutersConfig_def sample_parallel_routers_def sample_parallel_tokens_def DEST_WEIGHT_def sample_chains_def sample_api_def
      Let_def)

lemmas sample_defs = emission_def InterlayAdapter_def AstarAdapter_def ParallelAdapter_def
  interlay_setApi_def astar_setApi_def parallel_setApi_def new_InterlayAdapter_def new_KintsugiAdapter_def new_AstarAdapter_def
        new_BaseCrossChainAdapter_def interlayRoutersConfig_def kintsugiRoutersConfig_def
        astarRoutersConfig_def sample_parallel_routers_def sample_parallel_tokens_def DEST_WEIGHT_def sample_chains_def
  sample_api_def sample_state_def new_BalanceAdapter_def getToken_def Let_def

theorem maxInput_formula_witness:
  "emission (interlay_subscribeMaxInput sample_chains InterlayAdapter ''DOT'' ''alice'' ''polkadot'')
     (sample_state 7 1000 :: (unit, CurrencyId call) chain_state) = Inr (fromInner 7 10)
 \<and> FN_value (fromInner 7 10) = maxSendable_spec (7 / 10 ^ 10) 0 0
 \<and> emission (astar_subscribeMaxInput 32 sample_chains AstarAdapter ''ASTR'' ''alice'' ''interlay'')
     (sample_state 5000000 1000) = Inr (fromInner 3998800 18)
 \<and> FN_value (fromInner 3998800 18)
     = maxSendable_spec (5000000 / 10 ^ 18) (1000 / 10 ^ 18) (1000000 / 10 ^ 18)
 \<and> emission (parallel_subscribeMaxInput sample_chains ParallelAdapter ''PARA'' ''alice'' ''acala'')
     (sample_state 200000000000 1000) = Inr (fromInner 99999998800 12)
 \<and> FN_value (fromInner 99999998800 12)
     = maxSendable_spec (200000000000 / 10 ^ 12) (1000 / 10 ^ 12) (100000000000 / 10 ^ 12)"
proof -
  let ?si = "sample_state 7 1000 :: (unit, CurrencyId call) chain_state"
  let ?sa = "sample_state 5000000 1000 :: (string, unit call) chain_state"
  let ?sp = "sample_state 200000000000 1000 :: (nat, nat call) chain_state"
  have ei: "emission (interlay_subscribeMaxInput sample_chains InterlayAdapter
      ''DOT'' ''alice'' ''polkadot'') ?si = Inr (fromInner 7 10)"
    by (simp add: sample_defs interlay_subscribeMaxInput_def interlay_subscribeBalance_def
        getSupportedTokens_def INTERLAY_SUPPORTED_TOKENS_def interlayTokensConfig_def
        FN_minus_def FN_times_def FN_new_def fromInner_def setPrecision_def shiftedBy_def)
  from maxInput_formula [THEN conjunct1, THEN mp, OF ei]
  obtain ba bo i tokenMeta txFee where
    "this_balanceAdapter InterlayAdapter = Some ba"
    "interlay_subscribeBalance ba ''DOT'' ''alice'' = Inr bo" "bo ?si = Inr i"
    "getToken ba ''DOT'' = Inr tokenMeta"
    "if ''DOT'' = nativeToken ba
     then \<exists>tx. interlay_createTx sample_chains InterlayAdapter
                 \<lparr>params_to = ''polkadot'', params_token = ''DOT'', params_amount = FN_ZERO,
                  params_address = ''alice'', params_signer = ''alice''\<rparr> = Inr tx
              \<and> txFee = paymentInfo ?si tx
     else txFee = 0"
    "FN_value (fromInner 7 10) =
       maxSendable_spec (FN_value (available i)) (of_nat txFee / 10 ^ decimals tokenMeta)
         (of_nat (ed tokenMeta) / 10 ^ decimals tokenMeta)"
    by blast
  then have vi: "FN_value (fromInner 7 10) = maxSendable_spec (7 / 10 ^ 10) 0 0"
    by (auto simp: sample_balanceAdapters interlay_subscribeBalance_def getSupportedTokens_def
        INTERLAY_SUPPORTED_TOKENS_def new_BalanceAdapter_def getToken_def interlayTokensConfig_def
        sample_api_def sample_state_def FN_value_fromInner Let_def)
  have ea: "emission (astar_subscribeMaxInput 32 sample_chains AstarAdapter
      ''ASTR'' ''alice'' ''interlay'') ?sa = Inr (fromInner 3998800 18)"
    by (simp add: sample_defs astar_subscribeMaxInput_def astar_subscribeBalance_def
        astar_createTx_def estimateTxFee_def astarTokensConfig_def
        FN_minus_def FN_times_def FN_new_def fromInner_def setPrecision_def shiftedBy_def)
  from maxInput_formula [THEN conjunct2, THEN conjunct1, THEN mp, OF ea]
  obtain ba bo i tokenMeta txFee where
    "this_balanceAdapter AstarAdapter = Some ba"
    "astar_subscribeBalance ba ''ASTR'' ''alice'' = Inr bo" "bo ?sa = Inr i"
    "getToken ba ''ASTR'' = Inr tokenMeta"
    "if ''ASTR'' = nativeToken ba
     then \<exists>tx. astar_createTx 32 sample_chains AstarAdapter
                 \<lparr>params_to = ''interlay'', params_token = ''ASTR'', params_amount = FN_ZERO,
                  params_address = ''alice'', params_signer = ''alice''\<rparr> = Inr tx
              \<and> txFee = paymentInfo ?sa tx
     else txFee = 0"
    "FN_value (fromInner 3998800 18) =
       maxSendable_spec (FN_value (available i)) (of_nat txFee / 10 ^ decimals tokenMeta)
         (of_nat (ed tokenMeta) / 10 ^ decimals tokenMeta)"
    by blast
  then have va: "FN_value (fromInner 3998800 18)
      = maxSendable_spec (5000000 / 10 ^ 18) (1000 / 10 ^ 18) (1000000 / 10 ^ 18)"
    by (auto simp: sample_balanceAdapters astar_subscribeBalance_def
        new_BalanceAdapter_def getToken_def astarTokensConfig_def
        sample_api_def sample_state_def FN_value_fromInner Let_def)
  have ep: "emission (parallel_subscribeMaxInput sample_chains ParallelAdapter
      ''PARA'' ''alice'' ''acala'') ?sp = Inr (fromInner 99999998800 12)"
    by (simp add: sample_defs parallel_subscribeMaxInput_def parallel_subscribeBalance_def
        parallel_createTx_def estimateTxFee_def parallel_SUPPORTED_TOKENS_def
        FN_minus_def FN_times_def FN_new_def fromInner_def setPrecision_def shiftedBy_def)
  from maxInput_formula [THEN conjunct2, THEN conjunct2, THEN mp, OF ep]
  obtain ba bo i tokenDecimals tokenED txFee where
    "this_balanceAdapter ParallelAdapter = Some ba"
    "parallel_subscribeBalance ba ''PARA'' ''alice'' = Inr bo" "bo ?sp = Inr i"
    "getTokenDecimals ba ''PARA'' = Inr tokenDecimals"
    "getTokenED ba ''PARA'' = Inr tokenED"
    "if ''PARA'' = parallel_nativeToken ba
     then \<exists>tx. parallel_createTx sample_chains ParallelAdapter
                 \<lparr>params_to = ''acala'', params_token = ''PARA'', params_amount = FN_ZERO,
                  params_address = ''alice'', params_signer = ''alice''\<rparr> = Inr tx
              \<and> txFee = paymentInfo ?sp tx
     else txFee = 0"
    "FN_value (fromInner 99999998800 12) =
       maxSendable_spec (FN_value (available i)) (of_nat txFee / 10 ^ tokenDecimals)
         (FN_value (case tokenED of None \<Rightarrow> FN_ZERO | Some fn \<Rightarrow> fn))"
    by blast
  then have vp: "FN_value (fromInner 99999998800 12)
      = maxSendable_spec (200000000000 / 10 ^ 12) (1000 / 10 ^ 12) (100000000000 / 10 ^ 12)"
    by (auto simp: sample_balanceAdapters parallel_subscribeBalance_def
        sample_state_def FN_value_fromInner Let_def)
  from ei vi ea va ep vp show ?thesis by blast
qed

section \<open>The sign of the maximal input\<close>

lemma maxSendable_nonneg:
  "0 \<le> maxSendable_spec a f e \<longleftrightarrow> 12 / 10 * f + e \<le> a"
  by (auto simp: maxSendable_spec_def)

text \<open>
  Claim C2, as stated: no emitted amount is negative. It fails: nothing clamps the
  difference. On Astar an account without IBTC yields minus one smallest unit, the
  minimum balance of IBTC being 1; on Parallel an empty account yields, for the native
  token, minus 1.2 times the estimated fee minus the minimum balance.
\<close>

theorem maxInput_negative_counterexample:
  "emission (astar_subscribeMaxInput 32 sample_chains AstarAdapter ''IBTC'' ''alice'' ''interlay'')
     (sample_state 0 1000) = Inr (fromInner (- 1) 8)
 \<and> FN_value (fromInner (- 1) 8) < 0
 \<and> emission (parallel_subscribeMaxInput sample_chains ParallelAdapter ''PARA'' ''alice'' ''acala'')
     (sample_state 0 1000) = Inr (fromInner (- 100000001200) 12)
 \<and> FN_value (fromInner (- 100000001200) 12) < 0"
proof -
  have "emission (astar_subscribeMaxInput 32 sample_chains AstarAdapter
      ''IBTC'' ''alice'' ''interlay'') (sample_state 0 1000) = Inr (fromInner (- 1) 8)"
    by (simp add: sample_defs astar_subscribeMaxInput_def astar_subscribeBalance_def
        astar_SUPPORTED_TOKENS_def astarTokensConfig_def
        FN_minus_def FN_times_def FN_new_def fromInner_def setPrecision_def shiftedBy_def)
  moreover have "emission (parallel_subscribeMaxInput sample_chains ParallelAdapter
      ''PARA'' ''alice'' ''acala'') (sample_state 0 1000) = Inr (fromInner (- 100000001200) 12)"
    by (simp add: sample_defs parallel_subscribeMaxInput_def parallel_subscribeBalance_def
        parallel_createTx_def estimateTxFee_def parallel_SUPPORTED_TOKENS_def
        FN_minus_def FN_times_def FN_new_def fromInner_def setPrecision_def shiftedBy_def)
  moreover have "FN_value (fromInner (- 1) 8) < 0" "FN_value (fromInner (- 100000001200) 12) < 0"
    by (simp_all add: FN_value_fromInner)
  ultimately show ?thesis by blast
qed

text \<open>
  Claim C2, amended: an amount that \<^verbatim>\<open>subscribeMaxInput\<close> emits is non-negative exactly when
  the available balance is at least 1.2 times the estimated transaction fee plus the
  token's minimum balance to exist; otherwise the amount is negative, and the caller has
  to treat it as no safe amount to send.
\<close>

theorem maxInput_sign:
  "(emission (interlay_subscribeMaxInput chains_cfg this token address to) s = Inr amount \<longrightarrow>
     (\<exists>ba balance_observable i tokenMeta txFee.
           this_balanceAdapter this = Some ba
         \<and> interlay_subscribeBalance ba token address = Inr balance_observable
         \<and> balance_observable s = Inr i
         \<and> getToken ba token = Inr tokenMeta
         \<and> (if token = nativeToken ba
             then \<exists>tx. interlay_createTx chains_cfg this
                         \<lparr>params_to = to, params_token = token, params_amount = FN_ZERO,
                          params_address = address, params_signer = address\<rparr> = Inr tx
                      \<and> txFee = paymentInfo s tx
             else txFee = 0)
         \<and> (0 \<le> FN_value amount \<longleftrightarrow>
               12 / 10 * (of_nat txFee / 10 ^ decimals tokenMeta)
                 + of_nat (ed tokenMeta) / 10 ^ decimals tokenMeta
               \<le> FN_value (available i))))
 \<and> (emission (astar_subscribeMaxInput N chains_cfg this token address to) sa = Inr amount \<longrightarrow>
     (\<exists>ba balance_observable i tokenMeta txFee.
           this_balanceAdapter this = Some ba
         \<and> astar_subscribeBalance ba token address = Inr balance_observable
         \<and> balance_observable sa = Inr i
         \<and> getToken ba token = Inr tokenMeta
         \<and> (if token = nativeToken ba
             then \<exists>tx. astar_createTx N chains_cfg this
                         \<lparr>params_to = to, params_token = token, params_amount = FN_ZERO,
                          params_address = address, params_signer = address\<rparr> = Inr tx
                      \<and> txFee = paymentInfo sa tx
             else txFee = 0)
         \<and> (0 \<le> FN_value amount \<longleftrightarrow>
               12 / 10 * (of_nat txFee / 10 ^ decimals tokenMeta)
                 + of_nat (ed tokenMeta) / 10 ^ decimals tokenMeta
               \<le> FN_value (available i))))
 \<and> (emission (parallel_subscribeMaxInput chains_cfg thisp token address to) sp = Inr amount \<longrightarrow>
     (\<exists>ba balance_observable i tokenDecimals tokenED txFee.
           this_balanceAdapter thisp = Some ba
         \<and> parallel_subscribeBalance ba token address = Inr balance_observable
         \<and> balance_observable sp = Inr i
         \<and> getTokenDecimals ba token = Inr tokenDecimals
         \<and> getTokenED ba token = Inr tokenED
         \<and> (if token = parallel_nativeToken ba
             then \<exists>tx. parallel_createTx chains_cfg thisp
                         \<lparr>params_to = to, params_token = token, params_amount = FN_ZERO,
                          params_address = address, params_signer = address\<rparr> = Inr tx
                      \<and> txFee = paymentInfo sp tx
             else txFee = 0)
         \<and> (0 \<le> FN_value amount \<longleftrightarrow>
               12 / 10 * (of_nat txFee / 10 ^ tokenDecimals)
                 + FN_value (case tokenED of None \<Rightarrow> FN_ZERO | Some fn \<Rightarrow> fn)
               \<le> FN_value (available i))))"
proof (intro conjI impI)
  assume "emission (interlay_subscribeMaxInput chains_cfg this token address to) s = Inr amount"
  then obtain maxInput where
    "interlay_subscribeMaxInput chains_cfg this token address to = Inr maxInput"
    "maxInput s = Inr amount"
    unfolding emission_Inr by blast
  from interlay_maxInput_value [OF this]
  show "\<exists>ba balance_observable i tokenMeta txFee.
           this_balanceAdapter this = Some ba
         \<and> interlay_subscribeBalance ba token address = Inr balance_observable
         \<and> balance_observable s = Inr i
         \<and> getToken ba token = Inr tokenMeta
         \<and> (if token = nativeToken ba
             then \<exists>tx. interlay_createTx chains_cfg this
                         \<lparr>params_to = to, params_token = token, params_amount = FN_ZERO,
                          params_address = address, params_signer = address\<rparr> = Inr tx
                      \<and> txFee = paymentInfo s tx
             else txFee = 0)
         \<and> (0 \<le> FN_value amount \<longleftrightarrow>
               12 / 10 * (of_nat txFee / 10 ^ decimals tokenMeta)
                 + of_nat (ed tokenMeta) / 10 ^ decimals tokenMeta
               \<le> FN_value (available i))"
    unfolding maxSendable_nonneg [symmetric] by metis
next
  assume "emission (astar_subscribeMaxInput N chains_cfg this token address to) sa = Inr amount"
  then obtain maxInput where
    "astar_subscribeMaxInput N chains_cfg this token address to = Inr maxInput"
    "maxInput sa = Inr amount"
    unfolding emission_Inr by blast
  from astar_maxInput_value [OF this]
  show "\<exists>ba balance_observable i tokenMeta txFee.
           this_balanceAdapter this = Some ba
         \<and> astar_subscribeBalance ba token address = Inr balance_observable
         \<and> balance_observable sa = Inr i
         \<and> getToken ba token = Inr tokenMeta
         \<and> (if token = nativeToken ba
             then \<exists>tx. astar_createTx N chains_cfg this
                         \<lparr>params_to = to, params_token = token, params_amount = FN_ZERO,
                          params_address = address, params_signer = address\<rparr> = Inr tx
                      \<and> txFee = paymentInfo sa tx
             else txFee = 0)
         \<and> (0 \<le> FN_value amount \<longleftrightarrow>
               12 / 10 * (of_nat txFee / 10 ^ decimals tokenMeta)
                 + of_nat (ed tokenMeta) / 10 ^ decimals tokenMeta
               \<le> FN_value (available i))"
    unfolding maxSendable_nonneg [symmetric] by metis
next
  assume "emission (parallel_subscribeMaxInput chains_cfg thisp token address to) sp = Inr amount"
  then obtain maxInput where
    "parallel_subscribeMaxInput chains_cfg thisp token address to = Inr maxInput"
    "maxInput sp = Inr amount"
    unfolding emission_Inr by blast
  from parallel_maxInput_value [OF this]
  show "\<exists>ba balance_observable i tokenDecimals tokenED txFee.
           this_balanceAdapter thisp = Some ba
         \<and> parallel_subscribeBalance ba token address = Inr balance_observable
         \<and> balance_observable sp = Inr i
         \<and> getTokenDecimals ba token = Inr tokenDecimals
         \<and> getTokenED ba token = Inr tokenED
         \<and> (if token = parallel_nativeToken ba
             then \<exists>tx. parallel_createTx chains_cfg thisp
                         \<lparr>params_to = to, params_token = token, params_amount = FN_ZERO,
                          params_address = address, params_signer = address\<rparr> = Inr tx
                      \<and> txFee = paymentInfo sp tx
             else txFee = 0)
         \<and> (0 \<le> FN_value amount \<longleftrightarrow>
               12 / 10 * (of_nat txFee / 10 ^ tokenDecimals)
                 + FN_value (case tokenED of None \<Rightarrow> FN_ZERO | Some fn \<Rightarrow> fn)
               \<le> FN_value (available i))"
    unfolding maxSendable_nonneg [symmetric] by metis
qed

theorem maxInput_sign_witness:
  "emission (interlay_subscribeMaxInput sample_chains InterlayAdapter ''DOT'' ''alice'' ''polkadot'')
     (sample_state 7 1000 :: (unit, CurrencyId call) chain_state) = Inr (fromInner 7 10)
 \<and> 0 \<le> FN_value (fromInner 7 10)
 \<and> emission (astar_subscribeMaxInput 32 sample_chains AstarAdapter ''IBTC'' ''alice'' ''interlay'')
     (sample_state 0 1000) = Inr (fromInner (- 1) 8)
 \<and> \<not> 0 \<le> FN_value (fromInner (- 1) 8)
 \<and> emission (parallel_subscribeMaxInput sample_chains ParallelAdapter ''PARA'' ''alice'' ''acala'')
     (sample_state 200000000000 1000) = Inr (fromInner 99999998800 12)
 \<and> 0 \<le> FN_value (fromInner 99999998800 12)"
proof -
  let ?si = "sample_state 7 1000 :: (unit, CurrencyId call) chain_state"
  let ?sa = "sample_state 0 1000 :: (string, unit call) chain_state"
  let ?sp = "sample_state 200000000000 1000 :: (nat, nat call) chain_state"
  have ei: "emission (interlay_subscribeMaxInput sample_chains InterlayAdapter
      ''DOT'' ''alice'' ''polkadot'') ?si = Inr (fromInner 7 10)"
    by (simp add: sample_defs interlay_subscribeMaxInput_def interlay_subscribeBalance_def
        getSupportedTokens_def INTERLAY_SUPPORTED_TOKENS_def interlayTokensConfig_def
        FN_minus_def FN_times_def FN_new_def fromInner_def setPrecision_def shiftedBy_def)
  from maxInput_sign [THEN conjunct1, THEN mp, OF ei]
  obtain ba bo i tokenMeta txFee where
    "this_balanceAdapter InterlayAdapter = Some ba"
    "interlay_subscribeBalance ba ''DOT'' ''alice'' = Inr bo" "bo ?si = Inr i"
    "getToken ba ''DOT'' = Inr tokenMeta"
    "if ''DOT'' = nativeToken ba
     then \<exists>tx. interlay_createTx sample_chains InterlayAdapter
                 \<lparr>params_to = ''polkadot'', params_token = ''DOT'', params_amount = FN_ZERO,
                  params_address = ''alice'', params_signer = ''alice''\<rparr> = Inr tx
              \<and> txFee = paymentInfo ?si tx
     else txFee = 0"
    "0 \<le> FN_value (fromInner 7 10) \<longleftrightarrow>
       12 / 10 * (of_nat txFee / 10 ^ decimals tokenMeta)
         + of_nat (ed tokenMeta) / 10 ^ decimals tokenMeta
       \<le> FN_value (available i)"
    by blast
  then have vi: "0 \<le> FN_value (fromInner 7 10)"
    by (auto simp: sample_balanceAdapters interlay_subscribeBalance_def getSupportedTokens_def
        INTERLAY_SUPPORTED_TOKENS_def new_BalanceAdapter_def getToken_def interlayTokensConfig_def
        sample_api_def sample_state_def FN_value_fromInner Let_def)
  have ea: "emission (astar_subscribeMaxInput 32 sample_chains AstarAdapter
      ''IBTC'' ''alice'' ''interlay'') ?sa = Inr (fromInner (- 1) 8)"
    by (simp add: sample_defs astar_subscribeMaxInput_def astar_subscribeBalance_def
        astar_SUPPORTED_TOKENS_def astarTokensConfig_def
        FN_minus_def FN_times_def FN_new_def fromInner_def setPrecision_def shiftedBy_def)
  from maxInput_sign [THEN conjunct2, THEN conjunct1, THEN mp, OF ea]
  obtain ba bo i tokenMeta txFee where
    "this_balanceAdapter AstarAdapter = Some ba"
    "astar_subscribeBalance ba ''IBTC'' ''alice'' = Inr bo" "bo ?sa = Inr i"
    "getToken ba ''IBTC'' = Inr tokenMeta"
    "if ''IBTC'' = nativeToken ba
     then \<exists>tx. astar_createTx 32 sample_chains AstarAdapter
                 \<lparr>params_to = ''interlay'', params_token = ''IBTC'', params_amount = FN_ZERO,
                  params_address = ''alice'', params_signer = ''alice''\<rparr> = Inr tx
              \<and> txFee = paymentInfo ?sa tx
     else txFee = 0"
    "0 \<le> FN_value (fromInner (- 1) 8) \<longleftrightarrow>
       12 / 10 * (of_nat txFee / 10 ^ decimals tokenMeta)
         + of_nat (ed tokenMeta) / 10 ^ decimals tokenMeta
       \<le> FN_value (available i)"
    by blast
  then have va: "\<not> 0 \<le> FN_value (fromInner (- 1) 8)"
    by (auto simp: sample_balanceAdapters astar_subscribeBalance_def astar_SUPPORTED_TOKENS_def
        new_BalanceAdapter_def getToken_def astarTokensConfig_def
        sample_api_def sample_state_def FN_value_fromInner Let_def)
  have ep: "emission (parallel_subscribeMaxInput sample_chains ParallelAdapter
      ''PARA'' ''alice'' ''acala'') ?sp = Inr (fromInner 99999998800 12)"
    by (simp add: sample_defs parallel_subscribeMaxInput_def parallel_subscribeBalance_def
        parallel_createTx_def estimateTxFee_def parallel_SUPPORTED_TOKENS_def
        FN_minus_def FN_times_def FN_new_def fromInner_def setPrecision_def shiftedBy_def)
  from maxInput_sign [THEN conjunct2, THEN conjunct2, THEN mp, OF ep]
  obtain ba bo i tokenDecimals tokenED txFee where
    "this_balanceAdapter ParallelAdapter = Some ba"
    "parallel_subscribeBalance ba ''PARA'' ''alice'' = Inr bo" "bo ?sp = Inr i"
    "getTokenDecimals ba ''PARA'' = Inr tokenDecimals"
    "getTokenED ba ''PARA'' = Inr tokenED"
    "if ''PARA'' = parallel_nativeToken ba
     then \<exists>tx. parallel_createTx sample_chains ParallelAdapter
                 \<lparr>params_to = ''acala'', params_token = ''PARA'', params_amount = FN_ZERO,
                  params_address = ''alice'', params_signer = ''alice''\<rparr> = Inr tx
              \<and> txFee = paymentInfo ?sp tx
     else txFee = 0"
    "0 \<le> FN_value (fromInner 99999998800 12) \<longleftrightarrow>
       12 / 10 * (of_nat txFee / 10 ^ tokenDecimals)
         + FN_value (case tokenED of None \<Rightarrow> FN_ZERO | Some fn \<Rightarrow> fn)
       \<le> FN_value (available i)"
    by blast
  then have vp: "0 \<le> FN_value (fromInner 99999998800 12)"
    by (auto simp: sample_balanceAdapters parallel_subscribeBalance_def
        sample_state_def FN_value_fromInner Let_def)
  from ei vi ea va ep vp show ?thesis by blast
qed

end
